theory Spec2Isabelle
  imports Complex_Main
begin

section \<open>JavaScript values\<close>

text \<open>
  A JavaScript number is an IEEE double. The code under study only compares numbers, parses
  them and prints them, so a finite double is modelled by the rational it denotes (every
  finite double is a rational; the two zeros compare equal and are one value here), next to
  the two infinities and NaN. The rounding of a decimal to the nearest double is not
  computed here: where the code parses a number, the rounding is a parameter, and the one
  fractional literal of the source (\<open>0.8\<close> in the default configuration, which no
  function under study reads) is written as its decimal value.
\<close>

datatype number = NaN | NegInf | Finite rat | PosInf

text \<open>The relational operators on two numbers: any comparison with NaN is false.\<close>

fun num_lt :: "number \<Rightarrow> number \<Rightarrow> bool" where
  "num_lt NaN _ = False"
| "num_lt _ NaN = False"
| "num_lt _ NegInf = False"
| "num_lt NegInf _ = True"
| "num_lt PosInf _ = False"
| "num_lt (Finite a) PosInf = True"
| "num_lt (Finite a) (Finite b) = (a < b)"

fun num_le :: "number \<Rightarrow> number \<Rightarrow> bool" where
  "num_le NaN _ = False"
| "num_le _ NaN = False"
| "num_le NegInf _ = True"
| "num_le _ NegInf = False"
| "num_le _ PosInf = True"
| "num_le PosInf _ = False"
| "num_le (Finite a) (Finite b) = (a \<le> b)"

definition num_gt :: "number \<Rightarrow> number \<Rightarrow> bool" where
  "num_gt a b = num_lt b a"

definition num_ge :: "number \<Rightarrow> number \<Rightarrow> bool" where
  "num_ge a b = num_le b a"

text \<open>\<open>a == b\<close> on two numbers.\<close>

definition num_eq :: "number \<Rightarrow> number \<Rightarrow> bool" where
  "num_eq a b = (a \<noteq> NaN \<and> a = b)"

text \<open>
  The values \<open>JSON.parse\<close> can return, and \<open>undefined\<close> for an absent property. An object
  is the list of its own properties; a string is a list of code units below 256.
\<close>

datatype jsval =
    Undefined
  | Null
  | Boolean bool
  | Number number
  | String string
  | Array "jsval list"
  | Object "(string \<times> jsval) list"

fun typeof :: "jsval \<Rightarrow> string" where
  "typeof Undefined = ''undefined''"
| "typeof Null = ''object''"
| "typeof (Boolean b) = ''boolean''"
| "typeof (Number n) = ''number''"
| "typeof (String s) = ''string''"
| "typeof (Array xs) = ''object''"
| "typeof (Object kvs) = ''object''"

text \<open>\<open>!v\<close>: the falsy values.\<close>

fun falsy :: "jsval \<Rightarrow> bool" where
  "falsy Undefined = True"
| "falsy Null = True"
| "falsy (Boolean b) = (\<not> b)"
| "falsy (Number n) = (n = NaN \<or> n = Finite 0)"
| "falsy (String s) = (s = [])"
| "falsy (Array xs) = False"
| "falsy (Object kvs) = False"

text \<open>
  What the code throws: \<open>new Error(message)\<close>, the \<open>TypeError\<close> of the runtime when a
  property of \<open>undefined\<close> or \<open>null\<close> is read, and the errors that Node's own functions
  raise (process spawning, file system), passed through as they come.
\<close>

datatype js_error = Error string | TypeError | SystemError string

text \<open>
  Reading property \<open>k\<close> of a value. The code reads \<open>title\<close>, \<open>duration_seconds\<close>,
  \<open>scenes\<close>, \<open>start\<close>, \<open>end\<close>, \<open>voice\<close> and \<open>overlay\<close>; no prototype defines one of
  them, so on a primitive or an array they are \<open>undefined\<close>.
\<close>

fun get_prop :: "jsval \<Rightarrow> string \<Rightarrow> js_error + jsval" where
  "get_prop Undefined k = Inl TypeError"
| "get_prop Null k = Inl TypeError"
| "get_prop (Object kvs) k = Inr (case map_of kvs k of None \<Rightarrow> Undefined | Some v \<Rightarrow> v)"
| "get_prop v k = Inr Undefined"

section \<open>generate.ts: the script validator\<close>

record ScriptScene =
  start :: number
  end' :: number
  voice :: string
  overlay :: string

record YouTubeShortScript =
  title :: string
  duration_seconds :: number
  scenes :: "ScriptScene list"

text \<open>A script and a scene of the declared types, as the objects the validator inspects.\<close>

definition scene_js :: "ScriptScene \<Rightarrow> jsval" where
  "scene_js sc = Object [(''start'', Number (start sc)), (''end'', Number (end' sc)),
     (''voice'', String (voice sc)), (''overlay'', String (overlay sc))]"

definition script_js :: "YouTubeShortScript \<Rightarrow> jsval" where
  "script_js s = Object [(''title'', String (title s)),
     (''duration_seconds'', Number (duration_seconds s)),
     (''scenes'', Array (map scene_js (scenes s)))]"

text \<open>
  The callback of \<open>script.scenes.forEach\<close>: \<open>toS\<close> is the conversion of a number to a string
  that a template literal applies, \<open>d\<close> is \<open>script.duration_seconds\<close>.
\<close>

definition validateScene :: "(number \<Rightarrow> string) \<Rightarrow> number \<Rightarrow> nat \<Rightarrow> jsval \<Rightarrow> js_error + unit" where
  "validateScene toS d index scene =
    (case get_prop scene ''start'' of Inl e \<Rightarrow> Inl e | Inr st \<Rightarrow>
     if typeof st \<noteq> ''number'' then
       Inl (Error (''Scene '' @ toS (Finite (of_nat index)) @ '': start and end must be numbers''))
     else
     case get_prop scene ''end'' of Inl e \<Rightarrow> Inl e | Inr en \<Rightarrow>
     (case (st, en) of
        (Number s, Number e) \<Rightarrow>
          if num_lt s (Finite 0) \<or> num_gt e d \<or> num_ge s e then
            Inl (Error (''Scene '' @ toS (Finite (of_nat index)) @ '': invalid timing (start: ''
              @ toS s @ '', end: '' @ toS e @ '') - must be within 0-'' @ toS d @ '' seconds''))
          else
          (case get_prop scene ''voice'' of Inl err \<Rightarrow> Inl err | Inr v \<Rightarrow>
           if falsy v \<or> typeof v \<noteq> ''string'' then
             Inl (Error (''Scene '' @ toS (Finite (of_nat index)) @ '': voice must be a non-empty string''))
           else
           case get_prop scene ''overlay'' of Inl err \<Rightarrow> Inl err | Inr ov \<Rightarrow>
           if falsy ov \<or> typeof ov \<noteq> ''string'' then
             Inl (Error (''Scene '' @ toS (Finite (of_nat index)) @ '': overlay must be a non-empty string''))
           else Inr ())
      | _ \<Rightarrow>
          Inl (Error (''Scene '' @ toS (Finite (of_nat index)) @ '': start and end must be numbers''))))"

text \<open>\<open>forEach\<close> from index \<open>index\<close> on: the first callback that throws ends the loop.\<close>

fun forEach_scenes :: "(number \<Rightarrow> string) \<Rightarrow> number \<Rightarrow> nat \<Rightarrow> jsval list \<Rightarrow> js_error + unit" where
  "forEach_scenes toS d index [] = Inr ()"
| "forEach_scenes toS d index (scene # rest) =
    (case validateScene toS d index scene of
       Inl e \<Rightarrow> Inl e
     | Inr _ \<Rightarrow> forEach_scenes toS d (Suc index) rest)"

text \<open>
  \<open>script.scenes[i].start < script.scenes[i - 1].end\<close>. The loop runs after every scene
  has passed the callback, so both operands are numbers; the other cases are written out
  for totality (a property of \<open>null\<close> raises, a non-number never compares below).
\<close>

definition overlaps_prev :: "jsval list \<Rightarrow> nat \<Rightarrow> js_error + bool" where
  "overlaps_prev xs i =
    (case get_prop (xs ! i) ''start'' of Inl e \<Rightarrow> Inl e | Inr a \<Rightarrow>
     case get_prop (xs ! (i - 1)) ''end'' of Inl e \<Rightarrow> Inl e | Inr b \<Rightarrow>
     (case (a, b) of (Number x, Number y) \<Rightarrow> Inr (num_lt x y) | _ \<Rightarrow> Inr False))"

function overlap_loop :: "(number \<Rightarrow> string) \<Rightarrow> jsval list \<Rightarrow> nat \<Rightarrow> js_error + unit" where
  "overlap_loop toS xs i =
    (if i < length xs then
       (case overlaps_prev xs i of
          Inl e \<Rightarrow> Inl e
        | Inr True \<Rightarrow> Inl (Error (''Scene '' @ toS (Finite (of_nat i)) @ '' overlaps with previous scene''))
        | Inr False \<Rightarrow> overlap_loop toS xs (Suc i))
     else Inr ())"
  by pat_completeness auto
termination
  by (relation "measure (\<lambda>(toS, xs, i). length xs - i)") auto

text \<open>
  Lines 117 to 147 of \<open>validateScript\<close>: the checks of the title, of the duration, of the
  scene array and of each scene. When all pass, the scene array goes on to the overlap loop.
\<close>

definition individual_checks :: "(number \<Rightarrow> string) \<Rightarrow> jsval \<Rightarrow> js_error + jsval list" where
  "individual_checks toS script =
    (case get_prop script ''title'' of Inl e \<Rightarrow> Inl e | Inr t \<Rightarrow>
     if falsy t \<or> typeof t \<noteq> ''string'' then Inl (Error ''Invalid or missing title'')
     else
     case get_prop script ''duration_seconds'' of Inl e \<Rightarrow> Inl e | Inr dv \<Rightarrow>
     (case dv of
        Number d \<Rightarrow>
          if num_le d (Finite 0) then Inl (Error ''Duration must be a positive number'')
          else
          (case get_prop script ''scenes'' of Inl e \<Rightarrow> Inl e | Inr sv \<Rightarrow>
           (case sv of
              Array xs \<Rightarrow>
                if length xs = 0 then Inl (Error ''Scenes must be a non-empty array'')
                else
                (case forEach_scenes toS d 0 xs of
                   Inl e \<Rightarrow> Inl e
                 | Inr _ \<Rightarrow> Inr xs)
            | _ \<Rightarrow> Inl (Error ''Scenes must be a non-empty array'')))
      | _ \<Rightarrow> Inl (Error ''Duration must be a positive number'')))"

definition validateScript :: "(number \<Rightarrow> string) \<Rightarrow> jsval \<Rightarrow> js_error + unit" where
  "validateScript toS script =
    (case individual_checks toS script of
       Inl e \<Rightarrow> Inl e
     | Inr xs \<Rightarrow> overlap_loop toS xs 1)"

text \<open>\<open>script.scenes[i].start == script.scenes[i - 1].end\<close>, for two numbers.\<close>

definition meets_prev :: "jsval list \<Rightarrow> nat \<Rightarrow> bool" where
  "meets_prev xs i =
    (case (get_prop (xs ! i) ''start'', get_prop (xs ! (i - 1)) ''end'') of
       (Inr (Number x), Inr (Number y)) \<Rightarrow> num_eq x y
     | _ \<Rightarrow> False)"

text \<open>
  The invariants of a script in the data model: a non-empty title, a positive duration, a
  non-empty scene sequence, \<open>0 \<le> start < end \<le> duration_seconds\<close> for each scene, and no
  scene starting before the end of the one before it.
\<close>

definition scene_timing_ok :: "number \<Rightarrow> ScriptScene \<Rightarrow> bool" where
  "scene_timing_ok d sc =
    (num_le (Finite 0) (start sc) \<and> num_lt (start sc) (end' sc) \<and> num_le (end' sc) d)"

definition Script_invariants :: "YouTubeShortScript \<Rightarrow> bool" where
  "Script_invariants s =
    (title s \<noteq> [] \<and> num_lt (Finite 0) (duration_seconds s) \<and> scenes s \<noteq> [] \<and>
     list_all (scene_timing_ok (duration_seconds s)) (scenes s) \<and>
     list_all (\<lambda>i. num_ge (start (scenes s ! i)) (end' (scenes s ! (i - 1))))
       [1 ..< length (scenes s)])"

text \<open>Decimal digits of a natural number: what a number below \<open>10^21\<close> that is a natural prints as.\<close>

definition digit_char :: "nat \<Rightarrow> char" where
  "digit_char n = (''0123456789'' ! n)"

function digits :: "nat \<Rightarrow> string" where
  "digits n = (if n < 10 then [digit_char n] else digits (n div 10) @ [digit_char (n mod 10)])"
  by pat_completeness auto
termination
  by (relation "measure id") auto

declare digits.simps [simp del]

text \<open>
  The printer used in the examples: the decimal digits of a natural number. The examples
  print nothing else; any other number prints as the empty string here.
\<close>

definition toString_nat :: "number \<Rightarrow> string" where
  "toString_nat n =
    (case n of
       Finite r \<Rightarrow> (if r = of_nat (nat \<lfloor>r\<rfloor>) then digits (nat \<lfloor>r\<rfloor>) else [])
     | _ \<Rightarrow> [])"

section \<open>The duration probe\<close>

text \<open>
  \<open>audioDurationResult.match(/Duration: ([\d.]+) seconds/)\<close> and \<open>parseFloat\<close> of its
  group. Without the \<open>u\<close> flag \<open>\d\<close> is an ASCII digit.
\<close>

definition is_digit :: "char \<Rightarrow> bool" where
  "is_digit c = (c \<in> set ''0123456789'')"

definition is_num_char :: "char \<Rightarrow> bool" where
  "is_num_char c = (is_digit c \<or> c = CHR ''.'')"

fun strip_prefix :: "string \<Rightarrow> string \<Rightarrow> string option" where
  "strip_prefix [] s = Some s"
| "strip_prefix (p # ps) [] = None"
| "strip_prefix (p # ps) (c # cs) = (if p = c then strip_prefix ps cs else None)"

text \<open>
  The regular expression tried at the start of \<open>s\<close>; the result is the group. The greedy
  \<open>[\d.]+\<close> takes the whole run of digits and dots: giving a character back would leave a
  digit or a dot where the pattern wants the space of \<open>" seconds"\<close>, so no backtracking
  finds a match that the longest run does not.
\<close>

definition match_at :: "string \<Rightarrow> string option" where
  "match_at s =
    (case strip_prefix ''Duration: '' s of
       None \<Rightarrow> None
     | Some r \<Rightarrow>
         (let g = takeWhile is_num_char r in
          if g \<noteq> [] \<and> strip_prefix '' seconds'' (dropWhile is_num_char r) \<noteq> None
          then Some g else None))"

text \<open>\<open>match\<close> without the \<open>g\<close> flag: the leftmost position where the expression matches.\<close>

fun durationMatch :: "string \<Rightarrow> string option" where
  "durationMatch [] = None"
| "durationMatch (c # cs) =
    (case match_at (c # cs) of Some g \<Rightarrow> Some g | None \<Rightarrow> durationMatch cs)"

definition digit_val :: "char \<Rightarrow> nat" where
  "digit_val c = of_char c - 48"

definition dec_val :: "string \<Rightarrow> nat" where
  "dec_val ds = foldl (\<lambda>a c. 10 * a + digit_val c) 0 ds"

text \<open>
  \<open>parseFloat\<close> on a string of digits and dots, which is all the group can hold: the longest
  prefix of the form digits, digits\<open>.\<close>digits or \<open>.\<close>digits is the numeral, and without such
  a prefix the result is NaN. The result is the double nearest to the decimal value of the
  numeral: a large value overflows to \<open>Infinity\<close>, a tiny one underflows to 0, and most
  decimals are rounded. That rounding is a function of the runtime and is the parameter
  \<open>nearest\<close>, from the exact decimal value to the number returned.
\<close>

definition parseFloat :: "(rat \<Rightarrow> number) \<Rightarrow> string \<Rightarrow> number" where
  "parseFloat nearest g =
    (let ip = takeWhile is_digit g;
         fp = (case dropWhile is_digit g of
                 [] \<Rightarrow> []
               | c # r \<Rightarrow> if c = CHR ''.'' then takeWhile is_digit r else [])
     in if ip = [] \<and> fp = [] then NaN
        else nearest (of_nat (dec_val ip) + of_nat (dec_val fp) / 10 ^ length fp))"

text \<open>Lines 50 and 51 of \<open>runFullPipeline\<close>.\<close>

definition audioDuration :: "(rat \<Rightarrow> number) \<Rightarrow> string \<Rightarrow> number" where
  "audioDuration nearest audioDurationResult =
    (case durationMatch audioDurationResult of
       Some g \<Rightarrow> parseFloat nearest g
     | None \<Rightarrow> Finite 30)"

text \<open>
  The text holds, from position \<open>k\<close> on, \<open>Duration: \<close>, the non-empty run \<open>g\<close> of digits and
  dots, and \<open> seconds\<close>.
\<close>

definition pattern_at :: "string \<Rightarrow> nat \<Rightarrow> string \<Rightarrow> bool" where
  "pattern_at text k g =
    (g \<noteq> [] \<and> list_all is_num_char g \<and>
     take (length (''Duration: '' @ g @ '' seconds'')) (drop k text) = ''Duration: '' @ g @ '' seconds'')"

section \<open>index.ts: running a worker\<close>

text \<open>
  A promise at the end of the run: still pending, rejected with an error or resolved with
  a value.
\<close>

datatype 'a promise = Pending | Rejected js_error | Resolved 'a

text \<open>
  What a child process does, as the events its handlers see, in order: chunks of the two
  output streams, the \<open>error\<close> event with its cause, the \<open>close\<close> event with the exit code
  (\<open>null\<close> when a signal ended the process). \<open>spawn\<close> can also throw at once.
\<close>

datatype event = StdoutData string | StderrData string | ErrorEvent string | Close "int option"

datatype process = SpawnThrows string | Spawned "event list"

record capture =
  stdout :: string
  stderr :: string
  settled :: "string promise"

text \<open>\<open>String.prototype.trim\<close>: the white space and line terminators among the code units below 256.\<close>

definition is_space :: "char \<Rightarrow> bool" where
  "is_space c = (of_char c \<in> {9, 10, 11, 12, 13, 32, 160 :: nat})"

definition trim :: "string \<Rightarrow> string" where
  "trim s = rev (dropWhile is_space (rev (dropWhile is_space s)))"

text \<open>
  The four handlers of \<open>executePythonScript\<close>. A promise settles once: \<open>resolve\<close> and
  \<open>reject\<close> on a settled promise do nothing.
\<close>

fun on_event :: "capture \<Rightarrow> event \<Rightarrow> capture" where
  "on_event c (StdoutData d) = c\<lparr>stdout := stdout c @ d\<rparr>"
| "on_event c (StderrData d) = c\<lparr>stderr := stderr c @ d\<rparr>"
| "on_event c (Close code) =
    (if settled c \<noteq> Pending then c
     else if code = Some 0 then c\<lparr>settled := Resolved (trim (stdout c))\<rparr>
     else c\<lparr>settled := Rejected (Error (''Python script failed: '' @ stderr c))\<rparr>)"
| "on_event c (ErrorEvent cause) =
    (if settled c \<noteq> Pending then c else c\<lparr>settled := Rejected (SystemError cause)\<rparr>)"

definition run_process :: "process \<Rightarrow> string promise" where
  "run_process p =
    (case p of
       SpawnThrows cause \<Rightarrow> Rejected (SystemError cause)
     | Spawned evs \<Rightarrow> settled (foldl on_event \<lparr>stdout = [], stderr = [], settled = Pending\<rparr> evs))"

text \<open>
  For a stretch of events before the process ends: whether it is output only, and the text
  that each stream has delivered in it.
\<close>

fun is_data :: "event \<Rightarrow> bool" where
  "is_data (StdoutData d) = True"
| "is_data (StderrData d) = True"
| "is_data (ErrorEvent cause) = False"
| "is_data (Close code) = False"

fun stdout_text :: "event list \<Rightarrow> string" where
  "stdout_text [] = []"
| "stdout_text (StdoutData d # evs) = d @ stdout_text evs"
| "stdout_text (_ # evs) = stdout_text evs"

fun stderr_text :: "event list \<Rightarrow> string" where
  "stderr_text [] = []"
| "stderr_text (StderrData d # evs) = d @ stderr_text evs"
| "stderr_text (_ # evs) = stderr_text evs"

section \<open>config.ts\<close>

datatype duration_setting = Auto | Seconds number

record script_config =
  script_topic :: string
  script_style :: string
  script_duration_seconds :: duration_setting
  script_hook_duration :: number
  script_development_duration :: number
  script_climax_duration :: number
  script_max_words_per_scene :: number

record available_voices =
  voices_male :: "string list"
  voices_female :: "string list"

record speed_presets =
  preset_very_slow :: string
  preset_slow :: string
  preset_normal :: string
  preset_fast :: string
  preset_very_fast :: string

record tts_config =
  tts_provider :: string
  tts_voice :: string
  tts_rate :: string
  tts_volume :: string
  tts_pitch :: string
  tts_available_voices :: available_voices
  tts_speed_presets :: speed_presets

record resolution =
  width :: number
  height :: number

record video_config =
  video_background_video :: string
  video_resolution :: resolution
  video_fps :: number
  video_format :: string
  video_codec :: string
  video_audio_codec :: string
  video_crf :: number
  video_preset :: string

record llm_config =
  llm_model :: string
  llm_temperature :: number
  llm_max_tokens :: number
  llm_use_gpu :: bool

record output_config =
  output_directory :: string
  output_script_file :: string
  output_audio_file :: string
  output_background_file :: string
  output_final_video :: string

record text_overlay_config =
  overlay_enabled :: bool
  overlay_font :: string
  overlay_font_size :: number
  overlay_font_color :: string
  overlay_position :: string
  overlay_background_color :: string
  overlay_border_width :: number

record Config =
  cfg_script :: script_config
  cfg_tts :: tts_config
  cfg_video :: video_config
  cfg_llm :: llm_config
  cfg_output :: output_config
  cfg_text_overlay :: text_overlay_config

definition getDefaultConfig :: Config where
  "getDefaultConfig = \<lparr>
    cfg_script = \<lparr>
      script_topic = ''interesting life stories from Reddit'',
      script_style = ''engaging, dramatic storytelling'',
      script_duration_seconds = Auto,
      script_hook_duration = Finite 8,
      script_development_duration = Finite 10,
      script_climax_duration = Finite 12,
      script_max_words_per_scene = Finite 50\<rparr>,
    cfg_tts = \<lparr>
      tts_provider = ''edge-tts'',
      tts_voice = ''en-US-ChristopherNeural'',
      tts_rate = ''+0%'',
      tts_volume = ''+0%'',
      tts_pitch = ''+0Hz'',
      tts_available_voices = \<lparr>
        voices_male = [''en-US-ChristopherNeural'', ''en-US-EricNeural'', ''en-US-GuyNeural'',
          ''en-US-RogerNeural''],
        voices_female = [''en-US-JennyNeural'', ''en-US-AriaNeural'', ''en-US-MichelleNeural'']\<rparr>,
      tts_speed_presets = \<lparr>
        preset_very_slow = ''-50%'',
        preset_slow = ''-25%'',
        preset_normal = ''+0%'',
        preset_fast = ''+25%'',
        preset_very_fast = ''+50%''\<rparr>\<rparr>,
    cfg_video = \<lparr>
      video_background_video = ''minecraft_runner.mp4'',
      video_resolution = \<lparr>width = Finite 1080, height = Finite 1920\<rparr>,
      video_fps = Finite 30,
      video_format = ''mp4'',
      video_codec = ''libx264'',
      video_audio_codec = ''aac'',
      video_crf = Finite 23,
      video_preset = ''fast''\<rparr>,
    cfg_llm = \<lparr>
      llm_model = ''llama3.2'',
      llm_temperature = Finite (8 / 10),
      llm_max_tokens = Finite 500,
      llm_use_gpu = True\<rparr>,
    cfg_output = \<lparr>
      output_directory = ''./output'',
      output_script_file = ''script.json'',
      output_audio_file = ''speech_all.wav'',
      output_background_file = ''background.mp4'',
      output_final_video = ''short.mp4''\<rparr>,
    cfg_text_overlay = \<lparr>
      overlay_enabled = False,
      overlay_font = ''arial.ttf'',
      overlay_font_size = Finite 48,
      overlay_font_color = ''white'',
      overlay_position = ''bottom'',
      overlay_background_color = ''black@0.7'',
      overlay_border_width = Finite 5\<rparr>\<rparr>"

text \<open>
  The file system and the parser, as \<open>loadConfig\<close> meets them at one call: whether a path
  exists, what reading it gives (\<open>None\<close> when \<open>readFileSync\<close> throws), what \<open>JSON.parse\<close>
  makes of a text (\<open>None\<close> when it throws; a parsed document is taken as the \<open>Config\<close> the
  code casts it to), and the three candidate paths, which depend on the module directory
  and the working directory (\<open>process.cwd()\<close> is taken to succeed).
\<close>

record config_files =
  existsSync :: "string \<Rightarrow> bool"
  readFileSync :: "string \<Rightarrow> string option"
  JSON_parse :: "string \<Rightarrow> Config option"
  possiblePaths :: "string list"

text \<open>
  The module variable \<open>cachedConfig\<close>, and the paths given to \<open>readFileSync\<close> so far (what
  was parsed, and when).
\<close>

record config_state =
  cachedConfig :: "Config option"
  reads :: "string list"

datatype load_result = Loaded Config | NotFound | Thrown

text \<open>The \<open>for\<close> loop over the candidate paths, inside the \<open>try\<close> block.\<close>

fun try_paths :: "config_files \<Rightarrow> string list \<Rightarrow> config_state \<Rightarrow> load_result \<times> config_state" where
  "try_paths fs [] st = (NotFound, st)"
| "try_paths fs (configPath # rest) st =
    (if existsSync fs configPath then
       (case readFileSync fs configPath of
          None \<Rightarrow> (Thrown, st\<lparr>reads := reads st @ [configPath]\<rparr>)
        | Some configData \<Rightarrow>
            (case JSON_parse fs configData of
               None \<Rightarrow> (Thrown, st\<lparr>reads := reads st @ [configPath]\<rparr>)
             | Some c \<Rightarrow> (Loaded c, st\<lparr>reads := reads st @ [configPath], cachedConfig := Some c\<rparr>)))
     else try_paths fs rest st)"

definition loadConfig :: "config_files \<Rightarrow> config_state \<Rightarrow> Config \<times> config_state" where
  "loadConfig fs st =
    (case cachedConfig st of
       Some c \<Rightarrow> (c, st)
     | None \<Rightarrow>
         (case try_paths fs (possiblePaths fs) st of
            (Loaded c, st') \<Rightarrow> (c, st')
          | (NotFound, st') \<Rightarrow> (getDefaultConfig, st'\<lparr>cachedConfig := Some getDefaultConfig\<rparr>)
          | (Thrown, st') \<Rightarrow> (getDefaultConfig, st')))"

definition reloadConfig :: "config_files \<Rightarrow> config_state \<Rightarrow> Config \<times> config_state" where
  "reloadConfig fs st = loadConfig fs (st\<lparr>cachedConfig := None\<rparr>)"

section \<open>The generator and the pipeline\<close>

text \<open>
  A catalog entry and the catalog of \<open>scenes.json\<close>, with the fields the code reads: \<open>id\<close>,
  \<open>name\<close> and \<open>example_script\<close> of a scene, \<open>scenes\<close> and \<open>default_scene\<close> of the catalog.
  The example script is whatever the file holds; the validator inspects it.
\<close>

record Scene =
  scene_id :: string
  scene_name :: string
  example_script :: jsval

record ScenesData =
  catalog_scenes :: "Scene list"
  default_scene :: string

text \<open>
  What the run depends on and does not change: the module directory, the functions of the
  runtime (\<open>path.join\<close> of two segments, \<open>path.resolve\<close>, the conversion of a number to a
  string, the rounding of a decimal to the nearest double), the catalog and the configuration that the constructors loaded, what
  \<open>fs.writeJson\<close> answers (\<open>None\<close> for success, otherwise the cause of the failure), and
  what the \<open>n\<close>-th spawned process (counted from 0), given its arguments, does.
\<close>

record env =
  dirname :: string
  path_join :: "string \<Rightarrow> string \<Rightarrow> string"
  path_resolve :: "string \<Rightarrow> string"
  numToString :: "number \<Rightarrow> string"
  nearestDouble :: "rat \<Rightarrow> number"
  scenesData :: ScenesData
  config :: Config
  writeJson :: "string \<Rightarrow> jsval \<Rightarrow> string option"
  spawn :: "nat \<Rightarrow> string list \<Rightarrow> process"

text \<open>
  What changes: the field \<open>model\<close> of the generator, the calls of \<open>spawn\<close> made so far
  (command, arguments, working directory) and the files written.
\<close>

record world =
  model :: jsval
  spawned :: "(string \<times> string list \<times> string) list"
  written :: "(string \<times> jsval) list"

text \<open>The two paths that the constructors compute.\<close>

definition pythonPath :: "env \<Rightarrow> string" where
  "pythonPath env = path_join env (dirname env) ''../../python''"

definition outputPath :: "env \<Rightarrow> string" where
  "outputPath env = path_join env (dirname env) ''../../output''"

text \<open>A new generator: \<open>model\<close> is \<open>null\<close>.\<close>

definition new_world :: world where
  "new_world = \<lparr>model = Null, spawned = [], written = []\<rparr>"

text \<open>\<open>await\<close>: the rest runs on the resolved value; a rejection is thrown on, a pending promise never returns.\<close>

definition await :: "'a promise \<times> world \<Rightarrow> ('a \<Rightarrow> world \<Rightarrow> 'b promise \<times> world) \<Rightarrow> 'b promise \<times> world" where
  "await m f =
    (case m of
       (Resolved x, w) \<Rightarrow> f x w
     | (Rejected e, w) \<Rightarrow> (Rejected e, w)
     | (Pending, w) \<Rightarrow> (Pending, w))"

text \<open>The call \<open>spawn('python', [scriptPath, ...args], {cwd: this.pythonPath, ...})\<close>.\<close>

definition python_call :: "env \<Rightarrow> string \<Rightarrow> string list \<Rightarrow> string \<times> string list \<times> string" where
  "python_call env scriptName args =
    (''python'', path_join env (pythonPath env) scriptName # args, pythonPath env)"

definition executePythonScript :: "env \<Rightarrow> world \<Rightarrow> string \<Rightarrow> string list \<Rightarrow> string promise \<times> world" where
  "executePythonScript env w scriptName args =
    (let scriptPath = path_join env (pythonPath env) scriptName
     in (run_process (spawn env (length (spawned w)) (scriptPath # args)),
         w\<lparr>spawned := spawned w @ [python_call env scriptName args]\<rparr>))"

definition prepareBackgroundVideo :: "env \<Rightarrow> world \<Rightarrow> string \<Rightarrow> string \<Rightarrow> number \<Rightarrow> string promise \<times> world" where
  "prepareBackgroundVideo env w inputVideo outputVideo duration =
    (let inputPath = path_resolve env inputVideo;
         outputFile = path_join env (outputPath env) outputVideo
     in executePythonScript env w ''prepare_video.py'' [inputPath, outputFile, numToString env duration])"

definition initializeModel :: "world \<Rightarrow> unit promise \<times> world" where
  "initializeModel w = (Resolved (), w\<lparr>model := Object [(''mock'', Boolean True)]\<rparr>)"

text \<open>
  \<open>generateScript\<close>. The catalog lookup is \<open>scenes.find(...) || scenes[0]\<close>; with an empty
  catalog \<open>defaultScene\<close> is \<open>undefined\<close> and reading its \<open>example_script\<close> raises. The log
  line reads \<open>script.title\<close> before the validation.
\<close>

definition generateScript :: "env \<Rightarrow> world \<Rightarrow> jsval promise \<times> world" where
  "generateScript env w =
    (if falsy (model w) then
       (Rejected (Error ''Model not initialized. Call initializeModel() first.''), w)
     else
       (case (case find (\<lambda>scene. scene_id scene = default_scene (scenesData env))
                     (catalog_scenes (scenesData env)) of
                Some sc \<Rightarrow> Some sc
              | None \<Rightarrow> (case catalog_scenes (scenesData env) of [] \<Rightarrow> None | sc # _ \<Rightarrow> Some sc)) of
          None \<Rightarrow> (Rejected TypeError, w)
        | Some defaultScene \<Rightarrow>
            (let script = example_script defaultScene in
             case get_prop script ''title'' of
               Inl e \<Rightarrow> (Rejected e, w)
             | Inr _ \<Rightarrow>
                 (case validateScript (numToString env) script of
                    Inl e \<Rightarrow> (Rejected e, w)
                  | Inr _ \<Rightarrow> (Resolved script, w)))))"

definition saveScript :: "env \<Rightarrow> world \<Rightarrow> jsval \<Rightarrow> string promise \<times> world" where
  "saveScript env w script =
    (let outputFile = path_join env (outputPath env) ''script.json'' in
     case writeJson env outputFile script of
       None \<Rightarrow> (Resolved outputFile, w\<lparr>written := written w @ [(outputFile, script)]\<rparr>)
     | Some cause \<Rightarrow> (Rejected (SystemError cause), w))"

text \<open>
  \<open>cleanup\<close>: a model is an object without a \<open>dispose\<close> function (a value here never is a
  function), so nothing is disposed of and nothing changes.
\<close>

definition cleanup :: "world \<Rightarrow> unit promise \<times> world" where
  "cleanup w = (Resolved (), w)"

text \<open>
  An optional string argument \<open>v\<close> with \<open>!v\<close> decided: \<open>None\<close> when it is absent or empty
  (both falsy), otherwise the string.
\<close>

definition given :: "string option \<Rightarrow> string option" where
  "given inputVideo = (case inputVideo of None \<Rightarrow> None | Some v \<Rightarrow> if v = [] then None else Some v)"

text \<open>Step 1 of \<open>runFullPipeline\<close>, which is also the \<open>generate\<close> case of \<open>runStep\<close>.\<close>

definition generate_stage :: "env \<Rightarrow> world \<Rightarrow> unit promise \<times> world" where
  "generate_stage env w =
    await (initializeModel w) (\<lambda>_ w.
    await (generateScript env w) (\<lambda>script w.
    await (saveScript env w script) (\<lambda>_ w.
    cleanup w)))"

definition runFullPipeline :: "env \<Rightarrow> world \<Rightarrow> string option \<Rightarrow> unit promise \<times> world" where
  "runFullPipeline env w inputVideo =
    (let inputVideo = (case given inputVideo of
                         None \<Rightarrow> video_background_video (cfg_video (config env))
                       | Some v \<Rightarrow> v) in
     await (generate_stage env w) (\<lambda>_ w.
     await (executePythonScript env w ''synth.py''
              [''../output/script.json'', ''../output/speech_all.wav'']) (\<lambda>synthResult w.
     await (executePythonScript env w ''audio_utils.py'' [''../output/speech_all.wav''])
       (\<lambda>audioDurationResult w.
     await (prepareBackgroundVideo env w inputVideo ''background.mp4''
              (audioDuration (nearestDouble env) audioDurationResult)) (\<lambda>videoResult w.
     await (executePythonScript env w ''assemble.py''
              [''../output/script.json'', ''../output/background.mp4'',
               ''../output/speech_all.wav'', ''../output/short.mp4'']) (\<lambda>assembleResult w.
     (Resolved (), w)))))))"

definition runStep :: "env \<Rightarrow> world \<Rightarrow> string \<Rightarrow> string option \<Rightarrow> unit promise \<times> world" where
  "runStep env w step inputVideo =
    (if step = ''generate'' then generate_stage env w
     else if step = ''synth'' then
       await (executePythonScript env w ''synth.py'' []) (\<lambda>synthResult w. (Resolved (), w))
     else if step = ''prepare-video'' then
       (case given inputVideo of
          None \<Rightarrow> (Rejected (Error ''Input video path required for prepare-video step''), w)
        | Some v \<Rightarrow>
            await (prepareBackgroundVideo env w v ''background.mp4'' (Finite 30))
              (\<lambda>videoResult w. (Resolved (), w)))
     else if step = ''assemble'' then
       await (executePythonScript env w ''assemble.py''
                [''../output/script.json'', ''../output/background.mp4'',
                 ''../output/speech_all.wav'', ''../output/short.mp4''])
         (\<lambda>assembleResult w. (Resolved (), w))
     else
       (Rejected (Error (''Unknown step: '' @ step
          @ ''. Available steps: generate, synth, prepare-video, assemble'')), w))"

text \<open>
  The methods of a generator that change or read its state, and a sequence of calls of
  them (\<open>generateAndSave\<close> is the sequence \<open>initializeModel\<close>, \<open>generateScript\<close>,
  \<open>saveScript\<close>).
\<close>

datatype generator_call = InitializeModel | GenerateScript | SaveScript jsval | Cleanup

fun call_generator :: "env \<Rightarrow> world \<Rightarrow> generator_call \<Rightarrow> world" where
  "call_generator env w InitializeModel = snd (initializeModel w)"
| "call_generator env w GenerateScript = snd (generateScript env w)"
| "call_generator env w (SaveScript script) = snd (saveScript env w script)"
| "call_generator env w Cleanup = snd (cleanup w)"

definition call_all :: "env \<Rightarrow> world \<Rightarrow> generator_call list \<Rightarrow> world" where
  "call_all env w calls = foldl (call_generator env) w calls"

section \<open>Example inputs\<close>

text \<open>The script of the end-to-end scenario: two scenes that meet at second 10.\<close>

definition example_valid :: YouTubeShortScript where
  "example_valid = \<lparr>title = ''X'', duration_seconds = Finite 20,
     scenes = [\<lparr>start = Finite 0, end' = Finite 10, voice = ''a'', overlay = ''b''\<rparr>,
               \<lparr>start = Finite 10, end' = Finite 20, voice = ''a'', overlay = ''c''\<rparr>]\<rparr>"

text \<open>Three scenes; the third starts at second 8, before the second one ends.\<close>

definition example_overlap :: YouTubeShortScript where
  "example_overlap = \<lparr>title = ''X'', duration_seconds = Finite 20,
     scenes = [\<lparr>start = Finite 0, end' = Finite 5, voice = ''a'', overlay = ''b''\<rparr>,
               \<lparr>start = Finite 5, end' = Finite 10, voice = ''a'', overlay = ''c''\<rparr>,
               \<lparr>start = Finite 8, end' = Finite 20, voice = ''a'', overlay = ''d''\<rparr>]\<rparr>"

text \<open>One scene with correct timing and an empty voice.\<close>

definition example_no_voice :: YouTubeShortScript where
  "example_no_voice = \<lparr>title = ''X'', duration_seconds = Finite 20,
     scenes = [\<lparr>start = Finite 0, end' = Finite 10, voice = [], overlay = ''b''\<rparr>]\<rparr>"

text \<open>A document with duration 0 whose scene array holds \<open>null\<close>.\<close>

definition example_zero_duration :: jsval where
  "example_zero_duration = Object [(''title'', String ''X''),
     (''duration_seconds'', Number (Finite 0)), (''scenes'', Array [Null])]"

text \<open>
  The rounding used in the examples: the identity. On a rational that is a double, as the
  45 that the examples parse, it is the rounding of the runtime; the examples parse no
  other number.
\<close>

definition exact_double :: "rat \<Rightarrow> number" where
  "exact_double r = Finite r"

text \<open>
  An environment for the examples: paths joined with a slash and resolved against \<open>/work\<close>,
  a catalog with one scene whose example is \<open>example_valid\<close>, the default configuration, a
  file system that accepts the write, and three processes in a row that end with code 0;
  the second prints a duration.
\<close>

definition example_spawn :: "nat \<Rightarrow> string list \<Rightarrow> process" where
  "example_spawn n argv =
    (if n = 0 then Spawned [StdoutData ''synthesized'', Close (Some 0)]
     else if n = 1 then Spawned [StdoutData ''Duration: 45 seconds'', StdoutData [CHR 0x0A], Close (Some 0)]
     else Spawned [StderrData ''note'', StdoutData '' ok '', Close (Some 0)])"

definition example_env :: env where
  "example_env = \<lparr>
     dirname = ''/app/node/src'',
     path_join = (\<lambda>a b. a @ ''/'' @ b),
     path_resolve = (\<lambda>p. ''/work/'' @ p),
     numToString = toString_nat,
     nearestDouble = exact_double,
     scenesData = \<lparr>catalog_scenes =
         [\<lparr>scene_id = ''story'', scene_name = ''Story'', example_script = script_js example_valid\<rparr>],
       default_scene = ''story''\<rparr>,
     config = getDefaultConfig,
     writeJson = (\<lambda>file doc. None),
     spawn = example_spawn\<rparr>"

text \<open>Processes that end with exit code 1 and 2 after the same error output, and one that cannot be spawned.\<close>

definition failing_env :: "int \<Rightarrow> env" where
  "failing_env code = example_env\<lparr>spawn := (\<lambda>n argv. Spawned [StdoutData ''partial'', StderrData ''boom'', Close (Some code)])\<rparr>"

definition unspawnable_env :: env where
  "unspawnable_env = example_env\<lparr>spawn := (\<lambda>n argv. Spawned [ErrorEvent ''spawn python ENOENT'', Close (Some (- 2))])\<rparr>"

text \<open>
  A file system in which \<open>config.json\<close> exists in the working directory and is not valid
  JSON, and the same after the file has been repaired: its text then parses to a
  configuration that differs from the default in the voice.
\<close>

definition custom_config :: Config where
  "custom_config = getDefaultConfig\<lparr>cfg_tts := (cfg_tts getDefaultConfig)\<lparr>tts_voice := ''en-US-GuyNeural''\<rparr>\<rparr>"

definition broken_files :: config_files where
  "broken_files = \<lparr>
     existsSync = (\<lambda>p. p = ''config.json''),
     readFileSync = (\<lambda>p. if p = ''config.json'' then Some ''{'' else None),
     JSON_parse = (\<lambda>t. if t = ''{...}'' then Some custom_config else None),
     possiblePaths = [''/app/node/src/../../config.json'', ''/work/config.json'', ''config.json'']\<rparr>"

definition repaired_files :: config_files where
  "repaired_files = broken_files\<lparr>readFileSync := (\<lambda>p. if p = ''config.json'' then Some ''{...}'' else None)\<rparr>"

definition no_files :: config_files where
  "no_files = broken_files\<lparr>existsSync := (\<lambda>p. False)\<rparr>"

section \<open>Properties of the validator\<close>

lemma num_le_not_lt: "num_le a b \<Longrightarrow> \<not> num_lt b a"
  by (cases a; cases b) auto

lemma num_lt_not_le: "num_lt a b \<Longrightarrow> \<not> num_le b a"
  by (cases a; cases b) auto

lemma num_eq_not_lt: "num_eq a b \<Longrightarrow> \<not> num_lt a b"
  by (cases a; cases b) (auto simp: num_eq_def)

lemma validateScene_typed:
  assumes "scene_timing_ok d sc" "voice sc \<noteq> []" "overlay sc \<noteq> []"
  shows "validateScene toS d k (scene_js sc) = Inr ()"
  using assms
  by (simp add: validateScene_def scene_js_def scene_timing_ok_def num_gt_def num_ge_def
      num_le_not_lt num_lt_not_le)

lemma forEach_scenes_typed:
  assumes "list_all (scene_timing_ok d) scs"
    and "list_all (\<lambda>sc. voice sc \<noteq> [] \<and> overlay sc \<noteq> []) scs"
  shows "forEach_scenes toS d k (map scene_js scs) = Inr ()"
  using assms by (induction scs arbitrary: k) (simp_all add: validateScene_typed)

text \<open>The overlap loop from index \<open>i\<close> on, when no pair from there on overlaps.\<close>

lemma overlap_loop_none:
  assumes "\<forall>j. i \<le> j \<and> j < length xs \<longrightarrow> overlaps_prev xs j = Inr False"
  shows "overlap_loop toS xs i = Inr ()"
  using assms
proof (induction toS xs i rule: overlap_loop.induct)
  case (1 toS xs i)
  show ?case
  proof (cases "i < length xs")
    case True
    with "1.prems" have here: "overlaps_prev xs i = Inr False" by simp
    from "1.prems" have "\<forall>j. Suc i \<le> j \<and> j < length xs \<longrightarrow> overlaps_prev xs j = Inr False"
      by simp
    with "1.IH" [OF True here] have "overlap_loop toS xs (Suc i) = Inr ()" by simp
    with True here show ?thesis by (subst overlap_loop.simps) simp
  next
    case False
    then show ?thesis by (subst overlap_loop.simps) simp
  qed
qed

text \<open>The overlap loop from index \<open>i\<close> on, when \<open>k\<close> is the first index with an overlap.\<close>

lemma overlap_loop_first:
  assumes "i \<le> k" "k < length xs" "overlaps_prev xs k = Inr True"
    and "\<forall>j. i \<le> j \<and> j < k \<longrightarrow> overlaps_prev xs j = Inr False"
  shows "overlap_loop toS xs i =
    Inl (Error (''Scene '' @ toS (Finite (of_nat k)) @ '' overlaps with previous scene''))"
  using assms
proof (induction toS xs i rule: overlap_loop.induct)
  case (1 toS xs i)
  from "1.prems" have inb: "i < length xs" by simp
  show ?case
  proof (cases "i = k")
    case True
    with "1.prems" inb show ?thesis by (subst overlap_loop.simps) simp
  next
    case False
    with "1.prems" have lt: "i < k" by simp
    with "1.prems" have here: "overlaps_prev xs i = Inr False" by simp
    from lt "1.prems" have "overlap_loop toS xs (Suc i) =
      Inl (Error (''Scene '' @ toS (Finite (of_nat k)) @ '' overlaps with previous scene''))"
      by (intro "1.IH" [OF inb here]) auto
    with inb here show ?thesis by (subst overlap_loop.simps) simp
  qed
qed

lemma overlaps_prev_typed:
  assumes "i < length scs"
  shows "overlaps_prev (map scene_js scs) i = Inr (num_lt (start (scs ! i)) (end' (scs ! (i - 1))))"
  using assms by (simp add: overlaps_prev_def scene_js_def)

lemma individual_checks_typed:
  assumes "title s \<noteq> []" "\<not> num_le (duration_seconds s) (Finite 0)" "scenes s \<noteq> []"
    and "list_all (scene_timing_ok (duration_seconds s)) (scenes s)"
    and "list_all (\<lambda>sc. voice sc \<noteq> [] \<and> overlay sc \<noteq> []) (scenes s)"
  shows "individual_checks toS (script_js s) = Inr (map scene_js (scenes s))"
  using assms by (simp add: individual_checks_def script_js_def forEach_scenes_typed)

text \<open>A scene that passes the callback has numbers as \<open>start\<close> and \<open>end\<close>.\<close>

lemma validateScene_numbers:
  assumes "validateScene toS d k scene = Inr ()"
  shows "\<exists>a b. get_prop scene ''start'' = Inr (Number a) \<and> get_prop scene ''end'' = Inr (Number b)"
  using assms
  by (auto simp: validateScene_def split: sum.splits if_splits jsval.splits)

lemma forEach_scenes_numbers:
  assumes "forEach_scenes toS d k xs = Inr ()" "i < length xs"
  shows "\<exists>a b. get_prop (xs ! i) ''start'' = Inr (Number a) \<and> get_prop (xs ! i) ''end'' = Inr (Number b)"
  using assms
proof (induction xs arbitrary: k i)
  case Nil
  then show ?case by simp
next
  case (Cons x xs)
  from Cons.prems(1) have hd: "validateScene toS d k x = Inr ()"
    and tl: "forEach_scenes toS d (Suc k) xs = Inr ()"
    by (auto split: sum.splits)
  show ?case
  proof (cases i)
    case 0
    with validateScene_numbers [OF hd] show ?thesis by simp
  next
    case (Suc n)
    with Cons.prems(2) Cons.IH [OF tl, of n] show ?thesis by simp
  qed
qed

lemma individual_checks_numbers:
  assumes "individual_checks toS script = Inr xs" "i < length xs"
  shows "\<exists>a b. get_prop (xs ! i) ''start'' = Inr (Number a) \<and> get_prop (xs ! i) ''end'' = Inr (Number b)"
proof -
  from assms(1) obtain d where "forEach_scenes toS d 0 xs = Inr ()"
    by (auto simp: individual_checks_def split: sum.splits if_splits jsval.splits)
  from forEach_scenes_numbers [OF this assms(2)] show ?thesis .
qed

lemma meets_prev_no_overlap:
  assumes "meets_prev xs i"
  shows "overlaps_prev xs i = Inr False"
  using assms
  by (auto simp: meets_prev_def overlaps_prev_def num_eq_not_lt split: sum.splits jsval.splits)

lemmas validator_defs = validateScript_def individual_checks_def validateScene_def script_js_def
  scene_js_def num_gt_def num_ge_def overlaps_prev_def

lemma toString_nat_simps:
  "toString_nat (Finite 0) = ''0''" "toString_nat (Finite 1) = ''1''"
  "toString_nat (Finite 2) = ''2''" "toString_nat (Finite 30) = ''30''"
  by (simp_all add: toString_nat_def digits.simps digit_char_def)

lemma Script_invariants_example_valid: "Script_invariants example_valid"
  by (simp add: Script_invariants_def scene_timing_ok_def example_valid_def num_ge_def)

lemma individual_checks_example_valid:
  "individual_checks toString_nat (script_js example_valid) = Inr (map scene_js (scenes example_valid))"
  by (simp add: validator_defs example_valid_def)

lemma individual_checks_example_overlap:
  "individual_checks toString_nat (script_js example_overlap) = Inr (map scene_js (scenes example_overlap))"
  by (simp add: validator_defs example_overlap_def)

lemma example_overlap_third: "overlaps_prev (map scene_js (scenes example_overlap)) 2 = Inr True"
  by (simp add: overlaps_prev_def example_overlap_def scene_js_def)

lemma example_overlap_second:
  "1 \<le> j \<and> j < 2 \<longrightarrow> overlaps_prev (map scene_js (scenes example_overlap)) j \<noteq> Inr True"
proof
  assume "1 \<le> j \<and> j < 2"
  then have "j = 1" by arith
  then show "overlaps_prev (map scene_js (scenes example_overlap)) j \<noteq> Inr True"
    by (simp add: overlaps_prev_def example_overlap_def scene_js_def)
qed

lemma example_valid_meets:
  "1 \<le> j \<and> j < length (map scene_js (scenes example_valid)) \<longrightarrow>
   meets_prev (map scene_js (scenes example_valid)) j"
proof
  assume "1 \<le> j \<and> j < length (map scene_js (scenes example_valid))"
  then have "j = 1" by (simp add: example_valid_def)
  then show "meets_prev (map scene_js (scenes example_valid)) j"
    by (simp add: meets_prev_def example_valid_def scene_js_def num_eq_def)
qed

lemma validateScript_example_valid:
  "validateScript toString_nat (script_js example_valid) = Inr ()"
  by (simp add: validator_defs example_valid_def)

text \<open>
  C1, as stated, fails: \<open>example_no_voice\<close> has every invariant of the data model (title,
  positive duration, one scene with \<open>0 \<le> 0 < 10 \<le> 20\<close>, nothing to overlap), and the
  validator rejects it for its empty voice.
\<close>

theorem validateScript_rejects_empty_voice:
  "Script_invariants example_no_voice \<and>
   validateScript toString_nat (script_js example_no_voice) =
     Inl (Error ''Scene 0: voice must be a non-empty string'')"
  by (simp add: Script_invariants_def scene_timing_ok_def validator_defs example_no_voice_def
      toString_nat_simps)

text \<open>
  C1, amended: a script that has the invariants of the data model and whose scenes all have a
  non-empty voice and a non-empty overlay passes \<open>validateScript\<close> without an error.
\<close>

theorem validateScript_accepts_invariants:
  assumes "Script_invariants s"
    and "list_all (\<lambda>sc. voice sc \<noteq> [] \<and> overlay sc \<noteq> []) (scenes s)"
  shows "validateScript toS (script_js s) = Inr ()"
proof -
  from assms(1) have pos: "\<not> num_le (duration_seconds s) (Finite 0)"
    by (simp add: Script_invariants_def num_lt_not_le)
  from assms have chk: "individual_checks toS (script_js s) = Inr (map scene_js (scenes s))"
    by (intro individual_checks_typed pos) (simp_all add: Script_invariants_def)
  have "overlaps_prev (map scene_js (scenes s)) j = Inr False"
    if "1 \<le> j \<and> j < length (map scene_js (scenes s))" for j
  proof -
    from that assms(1) have "num_ge (start (scenes s ! j)) (end' (scenes s ! (j - 1)))"
      by (simp add: Script_invariants_def list_all_iff)
    with that show ?thesis
      by (simp add: overlaps_prev_typed num_ge_def num_le_not_lt)
  qed
  then have "overlap_loop toS (map scene_js (scenes s)) 1 = Inr ()"
    by (intro overlap_loop_none) blast
  with chk show ?thesis by (simp add: validateScript_def)
qed

text \<open>The amended C1 at the script of the end-to-end scenario.\<close>

theorem validateScript_accepts_invariants_witness:
  "Script_invariants example_valid \<and>
   list_all (\<lambda>sc. voice sc \<noteq> [] \<and> overlay sc \<noteq> []) (scenes example_valid) \<and>
   validateScript toString_nat (script_js example_valid) = Inr ()"
proof -
  have v: "list_all (\<lambda>sc. voice sc \<noteq> [] \<and> overlay sc \<noteq> []) (scenes example_valid)"
    by (simp add: example_valid_def)
  from validateScript_accepts_invariants [OF Script_invariants_example_valid v, of toString_nat]
    Script_invariants_example_valid v
  show ?thesis by simp
qed

text \<open>
  C3: let the title, the duration, the scene array and every scene have passed their checks,
  so that the scene array \<open>xs\<close> reaches the overlap loop. If \<open>i \<ge> 1\<close> is the first index with
  \<open>xs[i].start < xs[i - 1].end\<close>, \<open>validateScript\<close> fails with the overlap error for scene \<open>i\<close>.
  If every scene from the second on starts exactly where the one before it ends,
  \<open>validateScript\<close> returns without any error.
\<close>

theorem validateScript_overlap:
  assumes "individual_checks toS script = Inr xs"
  shows "(1 \<le> i \<and> i < length xs \<and> overlaps_prev xs i = Inr True \<and>
          (\<forall>j. 1 \<le> j \<and> j < i \<longrightarrow> overlaps_prev xs j \<noteq> Inr True) \<longrightarrow>
          validateScript toS script =
            Inl (Error (''Scene '' @ toS (Finite (of_nat i)) @ '' overlaps with previous scene'')))
       \<and> ((\<forall>j. 1 \<le> j \<and> j < length xs \<longrightarrow> meets_prev xs j) \<longrightarrow>
          validateScript toS script = Inr ())"
proof (intro conjI impI)
  assume h: "1 \<le> i \<and> i < length xs \<and> overlaps_prev xs i = Inr True \<and>
          (\<forall>j. 1 \<le> j \<and> j < i \<longrightarrow> overlaps_prev xs j \<noteq> Inr True)"
  have "overlaps_prev xs j = Inr False" if "1 \<le> j \<and> j < i" for j
  proof -
    from that h have "j < length xs" "j - 1 < length xs" by arith+
    from individual_checks_numbers [OF assms this(1)] individual_checks_numbers [OF assms this(2)]
    obtain b where "overlaps_prev xs j = Inr b"
      by (auto simp: overlaps_prev_def)
    with that h show ?thesis by (cases b) auto
  qed
  with h have "overlap_loop toS xs 1 =
      Inl (Error (''Scene '' @ toS (Finite (of_nat i)) @ '' overlaps with previous scene''))"
    by (intro overlap_loop_first) auto
  with assms show "validateScript toS script =
      Inl (Error (''Scene '' @ toS (Finite (of_nat i)) @ '' overlaps with previous scene''))"
    by (simp add: validateScript_def)
next
  assume "\<forall>j. 1 \<le> j \<and> j < length xs \<longrightarrow> meets_prev xs j"
  then have "overlap_loop toS xs 1 = Inr ()"
    by (intro overlap_loop_none) (simp add: meets_prev_no_overlap)
  with assms show "validateScript toS script = Inr ()"
    by (simp add: validateScript_def)
qed

text \<open>
  C3 at two scripts: in \<open>example_overlap\<close> the second scene starts where the first ends and
  the third overlaps the second, so the error names scene 2; \<open>example_valid\<close> passes.
\<close>

theorem validateScript_overlap_witness:
  "validateScript toString_nat (script_js example_overlap) =
     Inl (Error ''Scene 2 overlaps with previous scene'') \<and>
   validateScript toString_nat (script_js example_valid) = Inr ()"
proof -
  have len: "(2::nat) < length (map scene_js (scenes example_overlap))"
    by (simp add: example_overlap_def)
  from validateScript_overlap [OF individual_checks_example_overlap, of 2]
    len example_overlap_third example_overlap_second
  have "validateScript toString_nat (script_js example_overlap) =
     Inl (Error (''Scene '' @ toString_nat (Finite (of_nat 2)) @ '' overlaps with previous scene''))"
    by auto
  moreover from validateScript_overlap [OF individual_checks_example_valid, of 0]
    example_valid_meets
  have "validateScript toString_nat (script_js example_valid) = Inr ()"
    by blast
  ultimately show ?thesis by (simp add: toString_nat_simps)
qed

text \<open>
  C4: a document whose title is a non-empty string and whose duration is a number \<open>\<le> 0\<close>
  fails with the duration error, whatever its \<open>scenes\<close> property is (the statement does not
  mention it): no check of the scenes comes first.
\<close>

theorem validateScript_invalid_duration:
  assumes "get_prop script ''title'' = Inr (String t)" "t \<noteq> []"
    and "get_prop script ''duration_seconds'' = Inr (Number d)" "num_le d (Finite 0)"
  shows "validateScript toS script = Inl (Error ''Duration must be a positive number'')"
  using assms by (simp add: validateScript_def individual_checks_def)

text \<open>C4 at a document with duration 0 whose scene array holds \<open>null\<close>.\<close>

theorem validateScript_invalid_duration_witness:
  "get_prop example_zero_duration ''title'' = Inr (String ''X'') \<and> ''X'' \<noteq> [] \<and>
   get_prop example_zero_duration ''duration_seconds'' = Inr (Number (Finite 0)) \<and>
   num_le (Finite 0) (Finite 0) \<and>
   validateScript toString_nat example_zero_duration = Inl (Error ''Duration must be a positive number'')"
proof -
  have t: "get_prop example_zero_duration ''title'' = Inr (String ''X'')"
    and d: "get_prop example_zero_duration ''duration_seconds'' = Inr (Number (Finite 0))"
    by (simp_all add: example_zero_duration_def)
  have ne: "''X'' \<noteq> []" and le: "num_le (Finite 0) (Finite 0)" by simp_all
  from validateScript_invalid_duration [OF t ne d le, of toString_nat] t d show ?thesis by simp
qed

section \<open>Properties of the duration probe\<close>

lemma strip_prefix_Some: "strip_prefix p s = Some r \<longleftrightarrow> s = p @ r"
proof (induction p arbitrary: s)
  case Nil
  show ?case by auto
next
  case (Cons a p)
  show ?case by (cases s) (auto simp: Cons.IH)
qed

lemma not_num_char_space: "\<not> is_num_char CHR '' ''"
  by (simp add: is_num_char_def is_digit_def)

lemma not_digit_dot: "\<not> is_digit CHR ''.''"
  by (simp add: is_digit_def)

lemma pattern_at_0: "pattern_at s 0 g \<longleftrightarrow>
  g \<noteq> [] \<and> list_all is_num_char g \<and> (\<exists>post. s = ''Duration: '' @ g @ '' seconds'' @ post)"
proof -
  have "take (length P) s = P \<longleftrightarrow> (\<exists>post. s = P @ post)" for P :: string
    by (metis append_eq_conv_conj append_take_drop_id)
  from this [of "''Duration: '' @ g @ '' seconds''"] show ?thesis
    by (simp add: pattern_at_def)
qed

lemma match_at_Some: "match_at s = Some g \<longleftrightarrow> pattern_at s 0 g"
proof
  assume m: "match_at s = Some g"
  then obtain r where r: "s = ''Duration: '' @ r"
    by (auto simp: match_at_def strip_prefix_Some split: option.splits)
  then have sp: "strip_prefix ''Duration: '' s = Some r"
    by (simp only: strip_prefix_Some)
  from m sp have g: "g = takeWhile is_num_char r" "g \<noteq> []"
    and "strip_prefix '' seconds'' (dropWhile is_num_char r) \<noteq> None"
    by (auto simp: match_at_def Let_def split: if_splits)
  then obtain post where "dropWhile is_num_char r = '' seconds'' @ post"
    by (auto simp: strip_prefix_Some)
  with g(1) have "r = g @ '' seconds'' @ post"
    by (metis takeWhile_dropWhile_id)
  moreover from g(1) have "list_all is_num_char g"
    by (auto simp: list_all_iff dest: set_takeWhileD)
  ultimately show "pattern_at s 0 g"
    using g(2) r unfolding pattern_at_0 by auto
next
  assume "pattern_at s 0 g"
  then obtain post where g: "g \<noteq> []" "list_all is_num_char g"
    and s: "s = ''Duration: '' @ (g @ '' seconds'' @ post)"
    unfolding pattern_at_0 by auto
  from s have sp: "strip_prefix ''Duration: '' s = Some (g @ '' seconds'' @ post)"
    by (simp only: strip_prefix_Some)
  from g(2) have tw: "takeWhile is_num_char (g @ '' seconds'' @ post) = g"
    by (simp add: list_all_iff takeWhile_append2 not_num_char_space)
  from g(2) have dw: "dropWhile is_num_char (g @ '' seconds'' @ post) = '' seconds'' @ post"
    by (simp add: list_all_iff dropWhile_append2 not_num_char_space)
  have "strip_prefix '' seconds'' ('' seconds'' @ post) = Some post"
    by (simp only: strip_prefix_Some)
  with sp tw dw g(1) show "match_at s = Some g"
    by (simp add: match_at_def)
qed

lemma pattern_at_Nil: "\<not> pattern_at [] k g"
  by (simp add: pattern_at_def)

lemma pattern_at_Suc: "pattern_at (c # cs) (Suc k) g = pattern_at cs k g"
  by (simp add: pattern_at_def)

lemma durationMatch_None: "durationMatch t = None \<Longrightarrow> \<not> pattern_at t k g"
proof (induction t arbitrary: k)
  case Nil
  show ?case by (rule pattern_at_Nil)
next
  case (Cons c cs)
  from Cons.prems have m: "match_at (c # cs) = None" and d: "durationMatch cs = None"
    by (auto split: option.splits)
  show ?case
  proof (cases k)
    case 0
    with m show ?thesis by (metis match_at_Some option.distinct(1))
  next
    case (Suc n)
    with Cons.IH [OF d] show ?thesis by (simp add: pattern_at_Suc)
  qed
qed

lemma durationMatch_Some: "durationMatch t = Some g \<Longrightarrow> \<exists>k. pattern_at t k g"
proof (induction t)
  case Nil
  then show ?case by simp
next
  case (Cons c cs)
  show ?case
  proof (cases "match_at (c # cs)")
    case None
    with Cons.prems have "durationMatch cs = Some g" by simp
    from Cons.IH [OF this] obtain k where "pattern_at cs k g" ..
    then have "pattern_at (c # cs) (Suc k) g" by (simp add: pattern_at_Suc)
    then show ?thesis ..
  next
    case (Some h)
    with Cons.prems have "match_at (c # cs) = Some g" by simp
    then have "pattern_at (c # cs) 0 g" by (simp only: match_at_Some)
    then show ?thesis ..
  qed
qed

lemma durationMatch_leftmost:
  assumes "pattern_at t k g" "\<forall>k' g'. k' < k \<longrightarrow> \<not> pattern_at t k' g'"
  shows "durationMatch t = Some g"
  using assms
proof (induction t arbitrary: k)
  case Nil
  then show ?case by (simp add: pattern_at_Nil)
next
  case (Cons c cs)
  show ?case
  proof (cases k)
    case 0
    with Cons.prems(1) have "match_at (c # cs) = Some g" by (simp only: match_at_Some)
    then show ?thesis by simp
  next
    case (Suc n)
    with Cons.prems(2) have "\<not> pattern_at (c # cs) 0 g'" for g' by simp
    then have m: "match_at (c # cs) = None"
      by (metis match_at_Some not_Some_eq)
    from Suc Cons.prems(1) have p: "pattern_at cs n g" by (simp add: pattern_at_Suc)
    have "\<forall>k' g'. k' < n \<longrightarrow> \<not> pattern_at cs k' g'"
    proof (intro allI impI)
      fix k' g' assume "k' < n"
      with Suc have "Suc k' < k" by simp
      with Cons.prems(2) have "\<not> pattern_at (c # cs) (Suc k') g'" by blast
      then show "\<not> pattern_at cs k' g'" by (simp add: pattern_at_Suc)
    qed
    from Cons.IH [OF p this] m show ?thesis by simp
  qed
qed

lemma takeWhile_all: "list_all P xs \<Longrightarrow> takeWhile P xs = xs"
  by (simp add: list_all_iff)

lemma dropWhile_all: "list_all P xs \<Longrightarrow> dropWhile P xs = []"
  by (simp add: list_all_iff)

lemma takeWhile_all_app: "list_all P xs \<Longrightarrow> \<not> P y \<Longrightarrow> takeWhile P (xs @ y # ys) = xs"
  by (simp add: list_all_iff takeWhile_append2)

lemma dropWhile_all_app: "list_all P xs \<Longrightarrow> \<not> P y \<Longrightarrow> dropWhile P (xs @ y # ys) = y # ys"
  by (simp add: list_all_iff dropWhile_append2)

lemma parseFloat_decimal:
  assumes "list_all is_digit ip" "list_all is_digit fp" "ip \<noteq> [] \<or> fp \<noteq> []"
  shows "parseFloat nearest (ip @ ''.'' @ fp) =
    nearest (of_nat (dec_val ip) + of_nat (dec_val fp) / 10 ^ length fp)"
  using assms unfolding parseFloat_def Let_def
  by (auto simp: takeWhile_all takeWhile_all_app dropWhile_all_app not_digit_dot)

lemma parseFloat_integer:
  assumes "list_all is_digit ip" "ip \<noteq> []"
  shows "parseFloat nearest ip = nearest (of_nat (dec_val ip))"
  using assms unfolding parseFloat_def Let_def
  by (simp add: takeWhile_all dropWhile_all dec_val_def)

lemma parseFloat_dots:
  assumes "list_all (\<lambda>c. c = CHR ''.'') g"
  shows "parseFloat nearest g = NaN"
proof (cases g)
  case Nil
  then show ?thesis by (simp add: parseFloat_def)
next
  case (Cons c r)
  with assms have c: "c = CHR ''.''" and r: "list_all (\<lambda>c. c = CHR ''.'') r" by simp_all
  from r have "takeWhile is_digit r = []"
    by (cases r) (simp_all add: not_digit_dot)
  with Cons c show ?thesis
    by (simp add: parseFloat_def not_digit_dot)
qed

text \<open>Without a match of the expression anywhere in the text, the duration is 30.\<close>

lemma audioDuration_absent:
  assumes "\<forall>k g. \<not> pattern_at t k g"
  shows "audioDuration nearest t = Finite 30"
proof -
  from assms have "durationMatch t = None"
    by (metis durationMatch_Some not_Some_eq)
  then show ?thesis by (simp add: audioDuration_def)
qed

text \<open>With a match, the duration is \<open>parseFloat\<close> of the run at the leftmost one.\<close>

lemma audioDuration_leftmost:
  assumes "pattern_at t k g" "\<forall>k' g'. k' < k \<longrightarrow> \<not> pattern_at t k' g'"
  shows "audioDuration nearest t = parseFloat nearest g"
proof -
  from assms have "durationMatch t = Some g" by (rule durationMatch_leftmost)
  then show ?thesis by (simp add: audioDuration_def)
qed

text \<open>
  C2 at the probe output \<open>Duration: . seconds\<close>: the expression matches, the group \<open>.\<close> is no
  number, and the duration is NaN, whatever the rounding of the runtime is; the claim gives
  30 for a number that cannot be parsed.
\<close>

theorem audioDuration_unparsable:
  "audioDuration nearest ''Duration: . seconds'' = NaN \<and> NaN \<noteq> Finite 30"
  by (simp add: audioDuration_def match_at_def parseFloat_def is_num_char_def is_digit_def)

section \<open>Properties of the worker run\<close>

text \<open>Output events only append to the two buffers.\<close>

lemma foldl_on_event_data:
  assumes "list_all is_data pre"
  shows "foldl on_event c pre = c\<lparr>stdout := stdout c @ stdout_text pre, stderr := stderr c @ stderr_text pre\<rparr>"
  using assms
proof (induction pre arbitrary: c)
  case Nil
  show ?case by simp
next
  case (Cons e pre)
  then show ?case by (cases e) simp_all
qed

text \<open>Once the promise is settled, later events do not change it.\<close>

lemma foldl_on_event_settled:
  assumes "settled c \<noteq> Pending"
  shows "settled (foldl on_event c evs) = settled c"
  using assms
proof (induction evs arbitrary: c)
  case Nil
  show ?case by simp
next
  case (Cons e evs)
  have "settled (on_event c e) = settled c" using Cons.prems by (cases e) simp_all
  with Cons show ?case by simp
qed

text \<open>After output only, the first \<open>close\<close> or \<open>error\<close> event settles the promise.\<close>

lemma run_process_first:
  assumes "list_all is_data pre" "\<not> is_data ev"
  shows "run_process (Spawned (pre @ ev # rest)) =
    settled (on_event \<lparr>stdout = stdout_text pre, stderr = stderr_text pre, settled = Pending\<rparr> ev)"
proof -
  let ?c = "\<lparr>stdout = stdout_text pre, stderr = stderr_text pre, settled = Pending\<rparr>"
  from assms(1) have "foldl on_event \<lparr>stdout = [], stderr = [], settled = Pending\<rparr> pre = ?c"
    by (simp add: foldl_on_event_data)
  moreover from assms(2) have "settled (on_event ?c ev) \<noteq> Pending"
    by (cases ev) simp_all
  ultimately show ?thesis
    by (simp add: run_process_def foldl_on_event_settled)
qed

text \<open>A process that never closes and never fails leaves the promise pending.\<close>

lemma run_process_pending:
  assumes "list_all is_data evs"
  shows "run_process (Spawned evs) = Pending"
  using assms by (simp add: run_process_def foldl_on_event_data)

text \<open>
  C6, as stated, fails in one part: the rejection does not carry the exit code. Two workers
  that write the same error text and exit with the codes 1 and 2 reject with the same error.
\<close>

theorem executePythonScript_exit_code_lost:
  "fst (executePythonScript (failing_env 1) new_world ''synth.py'' []) =
     Rejected (Error ''Python script failed: boom'') \<and>
   fst (executePythonScript (failing_env 2) new_world ''synth.py'' []) =
     Rejected (Error ''Python script failed: boom'')"
  by (simp add: executePythonScript_def failing_env_def run_process_def new_world_def)

text \<open>
  C6, amended. Let the spawned worker deliver output only (\<open>pre\<close>) and then the event \<open>ev\<close>.
  If \<open>ev\<close> is \<open>close\<close> with code 0, the promise resolves with the trimmed standard output.
  If \<open>ev\<close> is \<open>close\<close> with another code (or \<open>null\<close>), it rejects with
  \<open>Error("Python script failed: " + stderr)\<close>: the error holds the captured standard error
  and not the exit code. If \<open>ev\<close> is \<open>error\<close>, it rejects with the error of the event itself,
  which is not an \<open>Error\<close> made by \<open>executePythonScript\<close>.
\<close>

theorem executePythonScript_outcome:
  assumes "spawn env (length (spawned w)) (path_join env (pythonPath env) scriptName # args) =
      Spawned (pre @ ev # rest)"
    and "list_all is_data pre"
  shows "(ev = Close (Some 0) \<longrightarrow>
           fst (executePythonScript env w scriptName args) = Resolved (trim (stdout_text pre))) \<and>
         (\<forall>code. ev = Close code \<and> code \<noteq> Some 0 \<longrightarrow>
           fst (executePythonScript env w scriptName args) =
             Rejected (Error (''Python script failed: '' @ stderr_text pre))) \<and>
         (\<forall>cause. ev = ErrorEvent cause \<longrightarrow>
           fst (executePythonScript env w scriptName args) = Rejected (SystemError cause))"
proof -
  have "fst (executePythonScript env w scriptName args) =
      settled (on_event \<lparr>stdout = stdout_text pre, stderr = stderr_text pre, settled = Pending\<rparr> ev)"
    if "\<not> is_data ev"
    using assms that by (simp add: executePythonScript_def Let_def run_process_first)
  then show ?thesis by auto
qed

lemma trim_ok: "trim '' ok '' = ''ok''"
  by (simp add: trim_def is_space_def)

text \<open>
  The amended C6 at three workers: the third process of \<open>example_env\<close> (exit code 0 after
  \<open>" ok "\<close>), a worker that exits with code 1 after writing \<open>boom\<close> to its standard error,
  and one whose spawning fails.
\<close>

theorem executePythonScript_outcome_witness:
  "fst (executePythonScript example_env (new_world\<lparr>spawned := [python_call example_env ''a.py'' [], python_call example_env ''b.py'' []]\<rparr>) ''assemble.py'' []) = Resolved ''ok'' \<and>
   fst (executePythonScript (failing_env 1) new_world ''synth.py'' []) =
     Rejected (Error ''Python script failed: boom'') \<and>
   fst (executePythonScript unspawnable_env new_world ''synth.py'' []) =
     Rejected (SystemError ''spawn python ENOENT'')"
proof -
  let ?w = "new_world\<lparr>spawned := [python_call example_env ''a.py'' [], python_call example_env ''b.py'' []]\<rparr>"
  have s0: "spawn example_env (length (spawned ?w)) (path_join example_env (pythonPath example_env) ''assemble.py'' # []) =
      Spawned ([StderrData ''note'', StdoutData '' ok ''] @ Close (Some 0) # [])"
    by (simp add: example_env_def example_spawn_def)
  have d0: "list_all is_data [StderrData ''note'', StdoutData '' ok '']" by simp
  have s1: "spawn (failing_env 1) (length (spawned new_world)) (path_join (failing_env 1) (pythonPath (failing_env 1)) ''synth.py'' # []) =
      Spawned ([StdoutData ''partial'', StderrData ''boom''] @ Close (Some 1) # [])"
    by (simp add: failing_env_def)
  have d1: "list_all is_data [StdoutData ''partial'', StderrData ''boom'']" by simp
  have s2: "spawn unspawnable_env (length (spawned new_world)) (path_join unspawnable_env (pythonPath unspawnable_env) ''synth.py'' # []) =
      Spawned ([] @ ErrorEvent ''spawn python ENOENT'' # [Close (Some (- 2))])"
    by (simp add: unspawnable_env_def)
  have d2: "list_all is_data []" by simp
  from executePythonScript_outcome [OF s0 d0] executePythonScript_outcome [OF s1 d1]
    executePythonScript_outcome [OF s2 d2]
  show ?thesis by (simp add: trim_ok)
qed


section \<open>Properties of the pipeline\<close>

lemma spawned_executePythonScript:
  "spawned (snd (executePythonScript env w scriptName args)) = spawned w @ [python_call env scriptName args]"
  by (simp add: executePythonScript_def Let_def)

lemma fst_executePythonScript:
  "fst (executePythonScript env w scriptName args) =
    run_process (spawn env (length (spawned w)) (path_join env (pythonPath env) scriptName # args))"
  by (simp add: executePythonScript_def Let_def)

lemma spawned_generateScript: "spawned (snd (generateScript env w)) = spawned w"
  by (simp add: generateScript_def Let_def split: option.splits list.splits sum.splits)

lemma spawned_saveScript: "spawned (snd (saveScript env w script)) = spawned w"
  by (simp add: saveScript_def Let_def split: option.splits)

lemma spawned_await:
  assumes "\<And>x w'. spawned (snd (f x w')) = spawned w'"
  shows "spawned (snd (await m f)) = spawned (snd m)"
  using assms by (cases m) (auto simp: await_def split: promise.splits)

lemma spawned_generate_stage: "spawned (snd (generate_stage env w)) = spawned w"
  unfolding generate_stage_def
  by (simp add: spawned_await spawned_saveScript spawned_generateScript cleanup_def initializeModel_def)

text \<open>
  C7: for a step name other than \<open>generate\<close>, \<open>synth\<close>, \<open>prepare-video\<close> and \<open>assemble\<close>,
  \<open>runStep\<close> rejects with the error whose message lists these four names, and nothing has
  run (the world is unchanged). For \<open>prepare-video\<close> without an input video (absent or
  empty), it rejects with the error that asks for the path, and no worker has been spawned.
\<close>

theorem runStep_unknown_or_missing_video:
  "(step \<notin> {''generate'', ''synth'', ''prepare-video'', ''assemble''} \<longrightarrow>
      runStep env w step inputVideo =
        (Rejected (Error (''Unknown step: '' @ step
           @ ''. Available steps: generate, synth, prepare-video, assemble'')), w)) \<and>
   (given inputVideo = None \<longrightarrow>
      runStep env w ''prepare-video'' inputVideo =
        (Rejected (Error ''Input video path required for prepare-video step''), w))"
  by (simp add: runStep_def)

text \<open>C7 at the step name \<open>publish\<close> and at \<open>prepare-video\<close> with an empty path.\<close>

theorem runStep_unknown_or_missing_video_witness:
  "runStep example_env new_world ''publish'' None =
     (Rejected (Error ''Unknown step: publish. Available steps: generate, synth, prepare-video, assemble''), new_world) \<and>
   runStep example_env new_world ''prepare-video'' (Some []) =
     (Rejected (Error ''Input video path required for prepare-video step''), new_world)"
proof -
  have a: "''publish'' \<notin> {''generate'', ''synth'', ''prepare-video'', ''assemble''}" by simp
  have b: "given (Some []) = None" by (simp add: given_def)
  from runStep_unknown_or_missing_video [of "''publish''" example_env new_world None] a
  have "runStep example_env new_world ''publish'' None =
     (Rejected (Error (''Unknown step: '' @ ''publish''
           @ ''. Available steps: generate, synth, prepare-video, assemble'')), new_world)"
    by blast
  moreover from runStep_unknown_or_missing_video [of _ example_env new_world "Some []"] b
  have "runStep example_env new_world ''prepare-video'' (Some []) =
     (Rejected (Error ''Input video path required for prepare-video step''), new_world)"
    by blast
  ultimately show ?thesis by simp
qed

text \<open>
  Awaiting a worker adds its call to the log; what the continuation spawns comes after it.
\<close>

lemma await_exec_extends:
  assumes "\<And>x w'. \<exists>r. spawned (snd (f x w')) = spawned w' @ r"
  shows "\<exists>r. spawned (snd (await (executePythonScript env w scriptName args) f)) =
    spawned w @ python_call env scriptName args # r"
proof (cases "executePythonScript env w scriptName args")
  case (Pair p w')
  with spawned_executePythonScript [of env w scriptName args]
  have w': "spawned w' = spawned w @ [python_call env scriptName args]" by simp
  show ?thesis
  proof (cases p)
    case (Resolved x)
    from assms [of x w'] obtain r where "spawned (snd (f x w')) = spawned w' @ r" ..
    with Pair Resolved w' show ?thesis by (simp add: await_def)
  next
    case Pending
    with Pair w' show ?thesis by (simp add: await_def)
  next
    case (Rejected e)
    with Pair w' show ?thesis by (simp add: await_def)
  qed
qed

lemma assemble_extends:
  "\<exists>r. spawned (snd (await (executePythonScript env w ''assemble.py'' args)
     (\<lambda>assembleResult w. (Resolved (), w)))) = spawned w @ r"
proof -
  have "\<exists>r. spawned (snd ((\<lambda>assembleResult w. (Resolved (), w)) x w')) = spawned w' @ r"
    for x :: string and w' :: world
    by simp
  from await_exec_extends [of "\<lambda>assembleResult w. (Resolved (), w)", OF this]
  show ?thesis by blast
qed

lemma prepare_extends:
  "\<exists>r. spawned (snd (await (prepareBackgroundVideo env w video out d) (\<lambda>videoResult w.
     await (executePythonScript env w ''assemble.py'' args) (\<lambda>assembleResult w. (Resolved (), w))))) =
     spawned w @ r"
proof -
  from await_exec_extends [of "\<lambda>videoResult w.
     await (executePythonScript env w ''assemble.py'' args) (\<lambda>assembleResult w. (Resolved (), w))",
     OF assemble_extends]
  show ?thesis unfolding prepareBackgroundVideo_def Let_def by blast
qed

lemma audio_extends:
  "\<exists>r. spawned (snd (await (executePythonScript env w ''audio_utils.py'' args1)
       (\<lambda>audioDurationResult w.
     await (prepareBackgroundVideo env w video out (audioDuration nearest audioDurationResult)) (\<lambda>videoResult w.
     await (executePythonScript env w ''assemble.py'' args) (\<lambda>assembleResult w. (Resolved (), w)))))) =
     spawned w @ r"
proof -
  from await_exec_extends [of "\<lambda>audioDurationResult w.
     await (prepareBackgroundVideo env w video out (audioDuration nearest audioDurationResult)) (\<lambda>videoResult w.
     await (executePythonScript env w ''assemble.py'' args) (\<lambda>assembleResult w. (Resolved (), w)))",
     OF prepare_extends]
  show ?thesis by blast
qed

lemma runFullPipeline_after_generate:
  assumes "generate_stage env w = (Resolved (), w1)"
  shows "runFullPipeline env w inputVideo =
     await (executePythonScript env w1 ''synth.py'' [''../output/script.json'', ''../output/speech_all.wav''])
       (\<lambda>synthResult w.
     await (executePythonScript env w ''audio_utils.py'' [''../output/speech_all.wav''])
       (\<lambda>audioDurationResult w.
     await (prepareBackgroundVideo env w (case given inputVideo of
                         None \<Rightarrow> video_background_video (cfg_video (config env))
                       | Some v \<Rightarrow> v) ''background.mp4''
              (audioDuration (nearestDouble env) audioDurationResult)) (\<lambda>videoResult w.
     await (executePythonScript env w ''assemble.py''
              [''../output/script.json'', ''../output/background.mp4'',
               ''../output/speech_all.wav'', ''../output/short.mp4'']) (\<lambda>assembleResult w.
     (Resolved (), w)))))"
  unfolding runFullPipeline_def Let_def assms
  by (subst await_def) simp

text \<open>
  C8: \<open>runStep("synth")\<close> spawns \<open>synth.py\<close> with the script path alone, that is with no
  positional argument. \<open>runFullPipeline\<close>, once its generate stage has succeeded, spawns
  \<open>synth.py\<close> first, with the script file and the audio file as arguments; when the generate
  stage fails it spawns nothing.
\<close>

theorem synth_arguments:
  "spawned (snd (runStep env w ''synth'' inputVideo)) = spawned w @ [python_call env ''synth.py'' []] \<and>
   (fst (generate_stage env w) = Resolved () \<longrightarrow>
      (\<exists>rest. spawned (snd (runFullPipeline env w inputVideo)) =
         spawned w @ python_call env ''synth.py'' [''../output/script.json'', ''../output/speech_all.wav''] # rest)) \<and>
   (fst (generate_stage env w) \<noteq> Resolved () \<longrightarrow>
      spawned (snd (runFullPipeline env w inputVideo)) = spawned w)"
proof (intro conjI impI)
  show "spawned (snd (runStep env w ''synth'' inputVideo)) = spawned w @ [python_call env ''synth.py'' []]"
    by (simp add: runStep_def spawned_await spawned_executePythonScript)
next
  assume g: "fst (generate_stage env w) = Resolved ()"
  obtain w1 where w1: "generate_stage env w = (Resolved (), w1)"
    using g by (cases "generate_stage env w") simp
  with spawned_generate_stage [of env w] have s1: "spawned w1 = spawned w" by simp
  let ?tail = "\<lambda>(synthResult :: string) w.
     await (executePythonScript env w ''audio_utils.py'' [''../output/speech_all.wav''])
       (\<lambda>audioDurationResult w.
     await (prepareBackgroundVideo env w (case given inputVideo of
                         None \<Rightarrow> video_background_video (cfg_video (config env))
                       | Some v \<Rightarrow> v) ''background.mp4''
              (audioDuration (nearestDouble env) audioDurationResult)) (\<lambda>videoResult w.
     await (executePythonScript env w ''assemble.py''
              [''../output/script.json'', ''../output/background.mp4'',
               ''../output/speech_all.wav'', ''../output/short.mp4'']) (\<lambda>assembleResult w.
     (Resolved (), w))))"
  have "\<exists>r. spawned (snd (?tail x w')) = spawned w' @ r" for x w'
    by (rule audio_extends)
  from await_exec_extends [of ?tail env w1 "''synth.py''"
      "[''../output/script.json'', ''../output/speech_all.wav'']", OF this]
  show "\<exists>rest. spawned (snd (runFullPipeline env w inputVideo)) =
         spawned w @ python_call env ''synth.py'' [''../output/script.json'', ''../output/speech_all.wav''] # rest"
    unfolding runFullPipeline_after_generate [OF w1] s1 .
next
  assume g: "fst (generate_stage env w) \<noteq> Resolved ()"
  then obtain p w1 where w1: "generate_stage env w = (p, w1)" "p \<noteq> Resolved ()"
    by (cases "generate_stage env w") auto
  with spawned_generate_stage [of env w] have s1: "spawned w1 = spawned w" by simp
  from w1 s1 show "spawned (snd (runFullPipeline env w inputVideo)) = spawned w"
    by (cases p) (simp_all add: runFullPipeline_def Let_def await_def)
qed

lemma prepare_call_extends:
  assumes "\<And>x w'. \<exists>r. spawned (snd (f x w')) = spawned w' @ r"
  shows "\<exists>r. spawned (snd (await (prepareBackgroundVideo env w video out d) f)) =
    spawned w @ python_call env ''prepare_video.py''
      [path_resolve env video, path_join env (outputPath env) out, numToString env d] # r"
  unfolding prepareBackgroundVideo_def Let_def
  by (rule await_exec_extends) (rule assms)

lemma generate_stage_example:
  "generate_stage example_env new_world =
    (Resolved (), \<lparr>model = Object [(''mock'', Boolean True)], spawned = [],
       written = [(''/app/node/src/../../output/script.json'', script_js example_valid)]\<rparr>)"
proof -
  have v: "validateScript toString_nat (script_js example_valid) = Inr ()"
    by (rule validateScript_example_valid)
  have t: "get_prop (script_js example_valid) ''title'' = Inr (String ''X'')"
    by (simp add: script_js_def example_valid_def)
  show ?thesis
    by (simp add: generate_stage_def initializeModel_def generateScript_def saveScript_def
        cleanup_def await_def example_env_def new_world_def outputPath_def Let_def v t)
qed

text \<open>C8 in \<open>example_env\<close>, where the generate stage succeeds.\<close>

theorem synth_arguments_witness:
  "fst (generate_stage example_env new_world) = Resolved () \<and>
   spawned (snd (runStep example_env new_world ''synth'' None)) =
     [(''python'', [''/app/node/src/../../python/synth.py''], ''/app/node/src/../../python'')] \<and>
   (\<exists>rest. spawned (snd (runFullPipeline example_env new_world None)) =
     (''python'', [''/app/node/src/../../python/synth.py'', ''../output/script.json'',
        ''../output/speech_all.wav''], ''/app/node/src/../../python'') # rest)"
proof -
  have g: "fst (generate_stage example_env new_world) = Resolved ()"
    by (simp add: generate_stage_example)
  have c: "python_call example_env ''synth.py'' args =
    (''python'', ''/app/node/src/../../python/synth.py'' # args, ''/app/node/src/../../python'')" for args
    by (simp add: python_call_def pythonPath_def example_env_def)
  from synth_arguments [of example_env new_world None] g
  show ?thesis by (simp add: c new_world_def)
qed

text \<open>
  C9: \<open>runStep("prepare-video", inputVideo)\<close> spawns \<open>prepare_video.py\<close> once, with the
  duration argument \<open>30\<close> printed as a string, whatever any process does. In
  \<open>runFullPipeline\<close>, after the generate stage, \<open>synth.py\<close> and \<open>audio_utils.py\<close> have succeeded,
  the next call is \<open>prepare_video.py\<close> with the duration read from the output of
  \<open>audio_utils.py\<close>.
\<close>

theorem prepare_video_duration:
  "(given inputVideo = Some v \<longrightarrow>
      spawned (snd (runStep env w ''prepare-video'' inputVideo)) =
        spawned w @ [python_call env ''prepare_video.py''
          [path_resolve env v, path_join env (outputPath env) ''background.mp4'',
           numToString env (Finite 30)]]) \<and>
   (generate_stage env w = (Resolved (), w1) \<and>
    executePythonScript env w1 ''synth.py''
      [''../output/script.json'', ''../output/speech_all.wav''] = (Resolved synthResult, w2) \<and>
    executePythonScript env w2 ''audio_utils.py'' [''../output/speech_all.wav''] =
      (Resolved audioDurationResult, w3) \<longrightarrow>
      (\<exists>rest. spawned (snd (runFullPipeline env w inputVideo)) =
         spawned w3 @ python_call env ''prepare_video.py''
           [path_resolve env (case given inputVideo of
              None \<Rightarrow> video_background_video (cfg_video (config env)) | Some v \<Rightarrow> v),
            path_join env (outputPath env) ''background.mp4'',
            numToString env (audioDuration (nearestDouble env) audioDurationResult)] # rest))"
proof (intro conjI impI)
  assume "given inputVideo = Some v"
  then show "spawned (snd (runStep env w ''prepare-video'' inputVideo)) =
        spawned w @ [python_call env ''prepare_video.py''
          [path_resolve env v, path_join env (outputPath env) ''background.mp4'',
           numToString env (Finite 30)]]"
    by (simp add: runStep_def spawned_await prepareBackgroundVideo_def Let_def
        spawned_executePythonScript)
next
  assume h: "generate_stage env w = (Resolved (), w1) \<and>
    executePythonScript env w1 ''synth.py''
      [''../output/script.json'', ''../output/speech_all.wav''] = (Resolved synthResult, w2) \<and>
    executePythonScript env w2 ''audio_utils.py'' [''../output/speech_all.wav''] =
      (Resolved audioDurationResult, w3)"
  let ?video = "case given inputVideo of
      None \<Rightarrow> video_background_video (cfg_video (config env)) | Some v \<Rightarrow> v"
  let ?tail = "\<lambda>(videoResult :: string) w.
     await (executePythonScript env w ''assemble.py''
              [''../output/script.json'', ''../output/background.mp4'',
               ''../output/speech_all.wav'', ''../output/short.mp4'']) (\<lambda>assembleResult w.
     (Resolved (), w))"
  from h have g: "generate_stage env w = (Resolved (), w1)" by simp
  have full: "runFullPipeline env w inputVideo =
      await (prepareBackgroundVideo env w3 ?video ''background.mp4''
        (audioDuration (nearestDouble env) audioDurationResult)) ?tail"
    unfolding runFullPipeline_after_generate [OF g] using h by (simp add: await_def)
  have "\<exists>r. spawned (snd (?tail x w')) = spawned w' @ r" for x w'
    by (rule assemble_extends)
  from prepare_call_extends [of ?tail env w3 ?video "''background.mp4''"
      "audioDuration (nearestDouble env) audioDurationResult", OF this]
  show "\<exists>rest. spawned (snd (runFullPipeline env w inputVideo)) =
         spawned w3 @ python_call env ''prepare_video.py''
           [path_resolve env ?video, path_join env (outputPath env) ''background.mp4'',
            numToString env (audioDuration (nearestDouble env) audioDurationResult)] # rest"
    unfolding full .
qed

lemma audioDuration_example: "audioDuration exact_double ''Duration: 45 seconds'' = Finite 45"
  by (simp add: audioDuration_def match_at_def parseFloat_def exact_double_def
      is_num_char_def is_digit_def dec_val_def digit_val_def)

lemma toString_nat_45: "toString_nat (Finite 45) = ''45''"
  by (simp add: toString_nat_def digits.simps digit_char_def)

text \<open>
  C9 in \<open>example_env\<close>, whose second process prints \<open>Duration: 45 seconds\<close>: the single
  step passes \<open>30\<close>, the full pipeline passes \<open>45\<close>.
\<close>

theorem prepare_video_duration_witness:
  "given (Some ''clip.mp4'') = Some ''clip.mp4'' \<and>
   spawned (snd (runStep example_env new_world ''prepare-video'' (Some ''clip.mp4''))) =
     [(''python'', [''/app/node/src/../../python/prepare_video.py'', ''/work/clip.mp4'',
        ''/app/node/src/../../output/background.mp4'', ''30''], ''/app/node/src/../../python'')] \<and>
   (\<exists>rest. spawned (snd (runFullPipeline example_env new_world (Some ''clip.mp4''))) =
     [python_call example_env ''synth.py'' [''../output/script.json'', ''../output/speech_all.wav''],
      python_call example_env ''audio_utils.py'' [''../output/speech_all.wav''],
      (''python'', [''/app/node/src/../../python/prepare_video.py'', ''/work/clip.mp4'',
        ''/app/node/src/../../output/background.mp4'', ''45''], ''/app/node/src/../../python'')] @ rest)"
proof -
  let ?w1 = "\<lparr>model = Object [(''mock'', Boolean True)], spawned = [],
       written = [(''/app/node/src/../../output/script.json'', script_js example_valid)]\<rparr>"
  let ?c1 = "python_call example_env ''synth.py'' [''../output/script.json'', ''../output/speech_all.wav'']"
  let ?c2 = "python_call example_env ''audio_utils.py'' [''../output/speech_all.wav'']"
  have gv: "given (Some ''clip.mp4'') = Some ''clip.mp4''" by (simp add: given_def)
  have e1: "executePythonScript example_env ?w1 ''synth.py''
      [''../output/script.json'', ''../output/speech_all.wav''] =
      (Resolved ''synthesized'', ?w1\<lparr>spawned := [?c1]\<rparr>)"
    by (simp add: executePythonScript_def run_process_def example_env_def example_spawn_def
        trim_def is_space_def)
  have e2: "executePythonScript example_env (?w1\<lparr>spawned := [?c1]\<rparr>) ''audio_utils.py''
      [''../output/speech_all.wav''] =
      (Resolved ''Duration: 45 seconds'', ?w1\<lparr>spawned := [?c1, ?c2]\<rparr>)"
    by (simp add: executePythonScript_def run_process_def example_env_def example_spawn_def
        trim_def is_space_def)
  have c: "python_call example_env ''prepare_video.py'' args =
    (''python'', ''/app/node/src/../../python/prepare_video.py'' # args, ''/app/node/src/../../python'')" for args
    by (simp add: python_call_def pythonPath_def example_env_def)
  have p: "path_resolve example_env ''clip.mp4'' = ''/work/clip.mp4''"
    "path_join example_env (outputPath example_env) ''background.mp4'' = ''/app/node/src/../../output/background.mp4''"
    "numToString example_env = toString_nat" "nearestDouble example_env = exact_double"
    by (simp_all add: example_env_def outputPath_def)
  from prepare_video_duration [of "Some ''clip.mp4''" "''clip.mp4''" example_env new_world
      ?w1 "''synthesized''" "?w1\<lparr>spawned := [?c1]\<rparr>"
      "''Duration: 45 seconds''" "?w1\<lparr>spawned := [?c1, ?c2]\<rparr>"]
    gv generate_stage_example e1 e2
  show ?thesis
    by (simp add: c p audioDuration_example toString_nat_45 toString_nat_simps new_world_def)
qed


section \<open>Properties of the generator\<close>

text \<open>The errors of the validator: a \<open>TypeError\<close> or one of its own messages.\<close>

lemma validateScene_error:
  assumes "validateScene toS d k scene = Inl e"
  shows "e = TypeError \<or> (\<exists>m. e = Error (''Scene '' @ m))"
proof -
  have ty: "get_prop v p = Inl x \<Longrightarrow> x = TypeError" for v p x
    by (cases v) auto
  from assms show ?thesis
    unfolding validateScene_def
    by (auto split: sum.splits if_splits jsval.splits dest: ty)
qed

lemma get_prop_error: "get_prop v p = Inl x \<Longrightarrow> x = TypeError"
  by (cases v) auto

lemma forEach_scenes_error:
  assumes "forEach_scenes toS d k xs = Inl e"
  shows "e = TypeError \<or> (\<exists>m. e = Error (''Scene '' @ m))"
  using assms
proof (induction xs arbitrary: k)
  case Nil
  then show ?case by simp
next
  case (Cons x xs)
  show ?case
  proof (cases "validateScene toS d k x")
    case (Inl e')
    with Cons.prems have "e' = e" by simp
    with Inl validateScene_error show ?thesis by blast
  next
    case (Inr u)
    with Cons.prems have "forEach_scenes toS d (Suc k) xs = Inl e" by simp
    then show ?thesis by (rule Cons.IH)
  qed
qed

lemma overlap_loop_error:
  assumes "overlap_loop toS xs i = Inl e"
  shows "e = TypeError \<or> (\<exists>m. e = Error (''Scene '' @ m))"
  using assms
proof (induction toS xs i rule: overlap_loop.induct)
  case (1 toS xs i)
  show ?case
  proof (cases "i < length xs")
    case False
    with "1.prems" show ?thesis by (subst (asm) overlap_loop.simps) simp
  next
    case True
    show ?thesis
    proof (cases "overlaps_prev xs i")
      case (Inl e')
      with True "1.prems" have "e' = e" by (subst (asm) overlap_loop.simps) simp
      moreover from Inl have "e' = TypeError"
        by (auto simp: overlaps_prev_def split: sum.splits prod.splits jsval.splits dest: get_prop_error)
      ultimately show ?thesis by simp
    next
      case (Inr b)
      show ?thesis
      proof (cases b)
        case True
        with \<open>i < length xs\<close> Inr "1.prems" show ?thesis
          by (subst (asm) overlap_loop.simps) auto
      next
        case False
        with \<open>i < length xs\<close> Inr "1.prems" have "overlap_loop toS xs (Suc i) = Inl e"
          by (subst (asm) overlap_loop.simps) simp
        moreover from False Inr have "overlaps_prev xs i = Inr False" by simp
        ultimately show ?thesis using "1.IH" [OF \<open>i < length xs\<close> _ refl] by blast
      qed
    qed
  qed
qed

lemma individual_checks_error:
  assumes "individual_checks toS script = Inl e"
  shows "e \<in> {TypeError, Error ''Invalid or missing title'',
    Error ''Duration must be a positive number'', Error ''Scenes must be a non-empty array''} \<or>
    (\<exists>m. e = Error (''Scene '' @ m))"
  using assms unfolding individual_checks_def
  by (auto split: sum.splits if_splits jsval.splits dest: get_prop_error forEach_scenes_error)

lemma validateScript_error:
  assumes "validateScript toS script = Inl e"
  shows "e \<in> {TypeError, Error ''Invalid or missing title'',
    Error ''Duration must be a positive number'', Error ''Scenes must be a non-empty array''} \<or>
    (\<exists>m. e = Error (''Scene '' @ m))"
proof (cases "individual_checks toS script")
  case (Inl e')
  with assms have "e' = e" by (simp add: validateScript_def)
  with Inl individual_checks_error show ?thesis by blast
next
  case (Inr xs)
  with assms have "overlap_loop toS xs 1 = Inl e" by (simp add: validateScript_def)
  from overlap_loop_error [OF this] show ?thesis by blast
qed

lemma validateScript_not_uninitialized:
  "validateScript toS script \<noteq> Inl (Error ''Model not initialized. Call initializeModel() first.'')"
proof
  assume "validateScript toS script = Inl (Error ''Model not initialized. Call initializeModel() first.'')"
  from validateScript_error [OF this] show False by auto
qed

lemma generateScript_initialized:
  assumes "\<not> falsy (model w)"
  shows "fst (generateScript env w) \<noteq> Rejected (Error ''Model not initialized. Call initializeModel() first.'')"
proof -
  have "fst (case get_prop script ''title'' of
               Inl e \<Rightarrow> (Rejected e, w)
             | Inr _ \<Rightarrow>
                 (case validateScript (numToString env) script of
                    Inl e \<Rightarrow> (Rejected e, w)
                  | Inr _ \<Rightarrow> (Resolved script, w))) \<noteq>
      Rejected (Error ''Model not initialized. Call initializeModel() first.'')" for script
    using validateScript_not_uninitialized [of "numToString env" script]
    by (auto split: sum.splits dest: get_prop_error)
  with assms show ?thesis
    unfolding generateScript_def Let_def
    by (simp split: option.splits list.splits)
qed

text \<open>Only \<open>initializeModel\<close> assigns the field \<open>model\<close>.\<close>

lemma model_generateScript: "model (snd (generateScript env w)) = model w"
  by (simp add: generateScript_def Let_def split: option.splits list.splits sum.splits)

lemma model_saveScript: "model (snd (saveScript env w script)) = model w"
  by (simp add: saveScript_def Let_def split: option.splits)

lemma model_call_generator:
  "model (call_generator env w c) =
    (if c = InitializeModel then Object [(''mock'', Boolean True)] else model w)"
  by (cases c) (simp_all add: initializeModel_def model_generateScript model_saveScript cleanup_def)

lemma model_call_all_uninitialized:
  assumes "InitializeModel \<notin> set calls"
  shows "model (call_all env w calls) = model w"
  using assms unfolding call_all_def
  by (induction calls arbitrary: w) (auto simp: model_call_generator)

lemma model_call_all_initialized:
  assumes "\<not> falsy (model w)"
  shows "\<not> falsy (model (call_all env w calls))"
  using assms unfolding call_all_def
  by (induction calls arbitrary: w) (simp_all add: model_call_generator)

text \<open>
  C10: in a generator on which \<open>initializeModel\<close> has not been called (a new generator after
  any calls of the other methods), \<open>generateScript\<close> rejects with the error that the model is
  not initialized, and the state is unchanged: no script results. Once \<open>initializeModel\<close> has
  been called, in whatever state and whatever is called after it, \<open>generateScript\<close> never
  rejects with that error.
\<close>

theorem generateScript_needs_model:
  "(InitializeModel \<notin> set calls \<longrightarrow>
      generateScript env (call_all env new_world calls) =
        (Rejected (Error ''Model not initialized. Call initializeModel() first.''),
         call_all env new_world calls)) \<and>
   fst (generateScript env (call_all env (snd (initializeModel w)) calls)) \<noteq>
     Rejected (Error ''Model not initialized. Call initializeModel() first.'')"
proof (intro conjI impI)
  assume "InitializeModel \<notin> set calls"
  then have "model (call_all env new_world calls) = Null"
    by (simp add: model_call_all_uninitialized new_world_def)
  then show "generateScript env (call_all env new_world calls) =
        (Rejected (Error ''Model not initialized. Call initializeModel() first.''),
         call_all env new_world calls)"
    by (simp add: generateScript_def)
next
  have "\<not> falsy (model (snd (initializeModel w)))" by (simp add: initializeModel_def)
  then have "\<not> falsy (model (call_all env (snd (initializeModel w)) calls))"
    by (rule model_call_all_initialized)
  then show "fst (generateScript env (call_all env (snd (initializeModel w)) calls)) \<noteq>
     Rejected (Error ''Model not initialized. Call initializeModel() first.'')"
    by (rule generateScript_initialized)
qed

text \<open>C10 on a new generator after two other calls, and after \<open>initializeModel\<close>.\<close>

theorem generateScript_needs_model_witness:
  "InitializeModel \<notin> set [Cleanup, SaveScript Null] \<and>
   fst (generateScript example_env (call_all example_env new_world [Cleanup, SaveScript Null])) =
     Rejected (Error ''Model not initialized. Call initializeModel() first.'') \<and>
   fst (generateScript example_env (call_all example_env (snd (initializeModel new_world)) [Cleanup])) \<noteq>
     Rejected (Error ''Model not initialized. Call initializeModel() first.'')"
proof -
  have n: "InitializeModel \<notin> set [Cleanup, SaveScript Null]" by simp
  from generateScript_needs_model [of "[Cleanup, SaveScript Null]" example_env] n
  have "fst (generateScript example_env (call_all example_env new_world [Cleanup, SaveScript Null])) =
     Rejected (Error ''Model not initialized. Call initializeModel() first.'')"
    by simp
  moreover from generateScript_needs_model [of "[Cleanup]" example_env new_world]
  have "fst (generateScript example_env (call_all example_env (snd (initializeModel new_world)) [Cleanup])) \<noteq>
     Rejected (Error ''Model not initialized. Call initializeModel() first.'')"
    by blast
  ultimately show ?thesis using n by blast
qed


section \<open>Properties of the configuration loader\<close>

text \<open>A cached configuration is returned as it is, and nothing is read.\<close>

lemma loadConfig_cached:
  assumes "cachedConfig st = Some c"
  shows "loadConfig fs st = (c, st)"
  using assms by (simp add: loadConfig_def)

text \<open>
  The loop over the candidate paths ends in one of three ways; only a parsed file is stored
  by the loop itself.
\<close>

lemma try_paths_cases:
  "(\<exists>c st'. try_paths fs ps st = (Loaded c, st') \<and> cachedConfig st' = Some c) \<or>
   (try_paths fs ps st = (NotFound, st)) \<or>
   (\<exists>st'. try_paths fs ps st = (Thrown, st') \<and> cachedConfig st' = cachedConfig st)"
  by (induction ps) (auto split: option.splits)

text \<open>
  \<open>loadConfig\<close> is total, and without a cached value and without a file that loads its result
  is the default configuration.
\<close>

lemma loadConfig_default_on_failure:
  assumes "cachedConfig st = None" "\<forall>c. fst (try_paths fs (possiblePaths fs) st) \<noteq> Loaded c"
  shows "fst (loadConfig fs st) = getDefaultConfig"
  using assms by (auto simp: loadConfig_def split: prod.splits load_result.splits)

lemma loadConfig_cache_holds_result:
  assumes "cachedConfig (snd (loadConfig fs st)) = Some c"
  shows "fst (loadConfig fs st) = c"
proof (cases "cachedConfig st")
  case (Some c')
  with assms show ?thesis by (simp add: loadConfig_def)
next
  case None
  from try_paths_cases [of fs "possiblePaths fs" st] None assms show ?thesis
    by (auto simp: loadConfig_def)
qed

text \<open>
  When a call leaves a value in the cache, the next call returns the same configuration
  and reads nothing, whatever the files have become.
\<close>

lemma loadConfig_twice:
  assumes "cachedConfig (snd (loadConfig fs st)) \<noteq> None"
  shows "loadConfig fs' (snd (loadConfig fs st)) = loadConfig fs st"
proof -
  from assms obtain c where c: "cachedConfig (snd (loadConfig fs st)) = Some c" by auto
  from loadConfig_cached [OF c, of fs'] loadConfig_cache_holds_result [OF c]
  show ?thesis by (simp add: prod_eq_iff)
qed

text \<open>Without any file the default configuration is cached.\<close>

lemma loadConfig_no_files:
  "loadConfig no_files \<lparr>cachedConfig = None, reads = []\<rparr> =
     (getDefaultConfig, \<lparr>cachedConfig = Some getDefaultConfig, reads = []\<rparr>)"
  by (simp add: loadConfig_def no_files_def broken_files_def)

lemma custom_config_differs: "custom_config \<noteq> getDefaultConfig"
proof
  assume "custom_config = getDefaultConfig"
  then have "tts_voice (cfg_tts custom_config) = tts_voice (cfg_tts getDefaultConfig)" by simp
  then show False by (simp add: custom_config_def getDefaultConfig_def)
qed

text \<open>
  C5 at a \<open>config.json\<close> that is not valid JSON: the first call returns the default
  configuration and leaves the cache empty; a second call, with no \<open>reloadConfig\<close> between
  the two, reads and parses the file again; and when the file has been repaired in between,
  the second call returns another configuration than the first.
\<close>

theorem loadConfig_failure_not_cached:
  "loadConfig broken_files \<lparr>cachedConfig = None, reads = []\<rparr> =
     (getDefaultConfig, \<lparr>cachedConfig = None, reads = [''config.json'']\<rparr>) \<and>
   loadConfig broken_files \<lparr>cachedConfig = None, reads = [''config.json'']\<rparr> =
     (getDefaultConfig, \<lparr>cachedConfig = None, reads = [''config.json'', ''config.json'']\<rparr>) \<and>
   loadConfig repaired_files \<lparr>cachedConfig = None, reads = [''config.json'']\<rparr> =
     (custom_config, \<lparr>cachedConfig = Some custom_config, reads = [''config.json'', ''config.json'']\<rparr>) \<and>
   custom_config \<noteq> getDefaultConfig"
  by (simp add: loadConfig_def broken_files_def repaired_files_def custom_config_differs)

end
